theory Spec2Isabelle
  imports Main "HOL-Library.Sublist"
begin

section \<open>Python strings\<close>

text \<open>
  The orchestrator (\<^verbatim>\<open>services/orchestrator/main.py\<close>) works on Python \<^verbatim>\<open>str\<close> values: a
  string is a list of code points, of a type \<open>'c\<close>. The two library functions the source
  calls on strings and that depend on the Unicode tables, \<^verbatim>\<open>str.lower\<close> and the white
  space test \<^verbatim>\<open>str.isspace\<close> behind \<^verbatim>\<open>str.strip\<close>, are not code of this repository: they
  are parameters \<open>lower\<close> and \<open>isspace\<close> of every function that uses them, and nothing is
  assumed about them that a theorem does not state. In particular \<open>lower\<close> is a function
  on whole strings: it may change the length of a string and depend on the context of a
  character, as \<^verbatim>\<open>str.lower\<close> does.
\<close>

text \<open>\<^verbatim>\<open>str.strip()\<close>: white space removed at both ends.\<close>

definition strip :: "('c \<Rightarrow> bool) \<Rightarrow> 'c list \<Rightarrow> 'c list" where
  "strip isspace s = rev (dropWhile isspace (rev (dropWhile isspace s)))"

text \<open>\<^verbatim>\<open>sub in text\<close>: the substring test, scanning the text from the left.\<close>

fun py_in :: "'c list \<Rightarrow> 'c list \<Rightarrow> bool" where
  "py_in sub [] = (sub = [])"
| "py_in sub (c # cs) = (prefix sub (c # cs) \<or> py_in sub cs)"

text \<open>\<^verbatim>\<open>text.find(sub)\<close>: the index of the first occurrence, or \<open>-1\<close>.\<close>

fun py_find :: "'c list \<Rightarrow> 'c list \<Rightarrow> int" where
  "py_find [] sub = (if sub = [] then 0 else - 1)"
| "py_find (c # cs) sub =
     (if prefix sub (c # cs) then 0
      else (let r = py_find cs sub in if r = - 1 then - 1 else r + 1))"

text \<open>
  Slicing \<^verbatim>\<open>text[i:j]\<close> with Python's treatment of the bounds: a negative bound counts
  from the end, and every bound is clamped to \<open>0..len(text)\<close>.
\<close>

definition slice_index :: "nat \<Rightarrow> int \<Rightarrow> nat" where
  "slice_index n i = (if i < 0 then nat (max 0 (int n + i)) else min n (nat i))"

definition py_slice :: "'c list \<Rightarrow> int \<Rightarrow> int \<Rightarrow> 'c list" where
  "py_slice s i j =
     (let a = slice_index (length s) i; b = slice_index (length s) j
      in take (b - a) (drop a s))"

text \<open>
  The two library functions on the strings whose code points are all below 256, where a
  code point is a \<^typ>\<open>char\<close>: there \<^verbatim>\<open>str.lower\<close> works code point by code point and maps
  \<^verbatim>\<open>A..Z\<close> and \<^verbatim>\<open>U+00C0..U+00DE\<close> except the multiplication sign \<^verbatim>\<open>U+00D7\<close> to the code
  point 32 higher, and
  \<^verbatim>\<open>str.isspace\<close> holds of TAB, LF, VT, FF, CR, \<^verbatim>\<open>U+001C..U+001F\<close>, the blank, NEL
  \<^verbatim>\<open>U+0085\<close> and the no-break space \<^verbatim>\<open>U+00A0\<close>. They instantiate the parameters where a
  function is evaluated on such a string; no theorem about all strings uses them.
\<close>

definition latin1_upper :: string where
  "latin1_upper =
     ''ABCDEFGHIJKLMNOPQRSTUVWXYZ'' @
     [CHR 0xC0, CHR 0xC1, CHR 0xC2, CHR 0xC3, CHR 0xC4, CHR 0xC5, CHR 0xC6,
     CHR 0xC7, CHR 0xC8, CHR 0xC9, CHR 0xCA, CHR 0xCB, CHR 0xCC, CHR 0xCD,
     CHR 0xCE, CHR 0xCF, CHR 0xD0, CHR 0xD1, CHR 0xD2, CHR 0xD3, CHR 0xD4,
     CHR 0xD5, CHR 0xD6, CHR 0xD8, CHR 0xD9, CHR 0xDA, CHR 0xDB, CHR 0xDC,
     CHR 0xDD, CHR 0xDE]"

definition latin1_lowered :: string where
  "latin1_lowered =
     ''abcdefghijklmnopqrstuvwxyz'' @
     [CHR 0xE0, CHR 0xE1, CHR 0xE2, CHR 0xE3, CHR 0xE4, CHR 0xE5, CHR 0xE6,
     CHR 0xE7, CHR 0xE8, CHR 0xE9, CHR 0xEA, CHR 0xEB, CHR 0xEC, CHR 0xED,
     CHR 0xEE, CHR 0xEF, CHR 0xF0, CHR 0xF1, CHR 0xF2, CHR 0xF3, CHR 0xF4,
     CHR 0xF5, CHR 0xF6, CHR 0xF8, CHR 0xF9, CHR 0xFA, CHR 0xFB, CHR 0xFC,
     CHR 0xFD, CHR 0xFE]"

definition latin1_lower_char :: "char \<Rightarrow> char" where
  "latin1_lower_char c =
     (case map_of (zip latin1_upper latin1_lowered) c of Some d \<Rightarrow> d | None \<Rightarrow> c)"

definition latin1_lower :: "string \<Rightarrow> string" where
  "latin1_lower s = map latin1_lower_char s"

definition latin1_isspace :: "char \<Rightarrow> bool" where
  "latin1_isspace c =
     (c \<in> set [CHR 0x09, CHR 0x0A, CHR 0x0B, CHR 0x0C, CHR 0x0D,
                CHR 0x1C, CHR 0x1D, CHR 0x1E, CHR 0x1F, CHR 0x20, CHR 0x85, CHR 0xA0])"

section \<open>Signal detection\<close>

text \<open>
  \<^verbatim>\<open>detect_signals(text)\<close> reads the module constant \<^verbatim>\<open>SIGNAL_KEYWORDS\<close>, the
  comma-separated configuration split at the commas; it is an argument here.
  The loop appends to \<^verbatim>\<open>signals\<close>, which is the accumulator.
\<close>

fun detect_loop ::
  "('c list \<Rightarrow> 'c list) \<Rightarrow> ('c \<Rightarrow> bool) \<Rightarrow> 'c list list \<Rightarrow> 'c list \<Rightarrow> 'c list list \<Rightarrow>
   'c list list" where
  "detect_loop lower isspace [] text_lower signals = signals"
| "detect_loop lower isspace (keyword # rest) text_lower signals =
     (if py_in (lower (strip isspace keyword)) text_lower
      then detect_loop lower isspace rest text_lower (signals @ [strip isspace keyword])
      else detect_loop lower isspace rest text_lower signals)"

definition detect_signals ::
  "('c list \<Rightarrow> 'c list) \<Rightarrow> ('c \<Rightarrow> bool) \<Rightarrow> 'c list list \<Rightarrow> 'c list \<Rightarrow> 'c list list" where
  "detect_signals lower isspace SIGNAL_KEYWORDS text =
     detect_loop lower isspace SIGNAL_KEYWORDS (lower text) []"

text \<open>\<^verbatim>\<open>extract_signal_context(text, signal, window=200)\<close>\<close>

definition extract_signal_context ::
  "('c list \<Rightarrow> 'c list) \<Rightarrow> ('c \<Rightarrow> bool) \<Rightarrow> 'c list \<Rightarrow> 'c list \<Rightarrow> int \<Rightarrow> 'c list" where
  "extract_signal_context lower isspace text signal window =
     (let text_lower = lower text;
          pos = py_find text_lower (lower signal)
      in if pos = - 1 then py_slice text 0 window
         else (let start = max 0 (pos - window div 2);
                   end = min (int (length text)) (pos + int (length signal) + window div 2)
               in strip isspace (py_slice text start end)))"

section \<open>JSON values and Python dictionaries\<close>

text \<open>
  The bodies sent to the memory service and the values of \<^verbatim>\<open>response.json()\<close>. A Python
  \<^verbatim>\<open>dict\<close> is an association list in insertion order.
\<close>

datatype json =
    JNull
  | JBool bool
  | JNum int
  | JStr string
  | JArr "json list"
  | JObj "(string \<times> json) list"

text \<open>
  What the handlers can raise: the failure of an outbound call (transport error,
  \<^verbatim>\<open>raise_for_status\<close>, undecodable body), with its message, and the errors of Python's
  own operations on a decoded value of the wrong type.
\<close>

datatype py_error = RequestFailed string | AttributeError | TypeError

text \<open>\<^verbatim>\<open>d[k] = v\<close>: an existing key keeps its place, a new key goes last.\<close>

fun dict_set :: "string \<Rightarrow> json \<Rightarrow> (string \<times> json) list \<Rightarrow> (string \<times> json) list" where
  "dict_set k v [] = [(k, v)]"
| "dict_set k v (p # ps) = (if fst p = k then (k, v) # ps else p # dict_set k v ps)"

text \<open>\<^verbatim>\<open>{**base, **extra}\<close>: the entries of \<^verbatim>\<open>extra\<close> are stored one after the other.\<close>

fun dict_merge :: "(string \<times> json) list \<Rightarrow> (string \<times> json) list \<Rightarrow> (string \<times> json) list" where
  "dict_merge base [] = base"
| "dict_merge base (p # ps) = dict_merge (dict_set (fst p) (snd p) base) ps"

text \<open>\<^verbatim>\<open>metadata or {}\<close>: \<^verbatim>\<open>None\<close> and the empty dictionary are both falsy.\<close>

definition or_empty :: "(string \<times> json) list option \<Rightarrow> (string \<times> json) list" where
  "or_empty metadata = (case metadata of None \<Rightarrow> [] | Some d \<Rightarrow> d)"

text \<open>Truthiness of an \<^verbatim>\<open>Optional[str]\<close>: \<^verbatim>\<open>None\<close> and \<^verbatim>\<open>""\<close> are falsy.\<close>

definition truthy :: "string option \<Rightarrow> bool" where
  "truthy s = (case s of None \<Rightarrow> False | Some t \<Rightarrow> t \<noteq> [])"

definition json_of_opt :: "string option \<Rightarrow> json" where
  "json_of_opt s = (case s of None \<Rightarrow> JNull | Some t \<Rightarrow> JStr t)"

text \<open>
  \<^verbatim>\<open>x.get(key, default)\<close> on a decoded value: only a dictionary has \<^verbatim>\<open>get\<close>.
\<close>

definition py_get :: "json \<Rightarrow> string \<Rightarrow> json \<Rightarrow> py_error + json" where
  "py_get x key dflt =
     (case x of
        JObj kvs \<Rightarrow> Inr (case map_of kvs key of None \<Rightarrow> dflt | Some v \<Rightarrow> v)
      | _ \<Rightarrow> Inl AttributeError)"

text \<open>\<^verbatim>\<open>len(x)\<close>: lists, strings and dictionaries have a length.\<close>

definition py_len :: "json \<Rightarrow> py_error + nat" where
  "py_len x =
     (case x of
        JArr xs \<Rightarrow> Inr (length xs)
      | JStr s \<Rightarrow> Inr (length s)
      | JObj kvs \<Rightarrow> Inr (length kvs)
      | _ \<Rightarrow> Inl TypeError)"

text \<open>\<^verbatim>\<open>x[:n]\<close> for a constant \<open>n \<ge> 0\<close>: lists and strings can be sliced.\<close>

definition py_take :: "nat \<Rightarrow> json \<Rightarrow> py_error + json" where
  "py_take n x =
     (case x of
        JArr xs \<Rightarrow> Inr (JArr (take n xs))
      | JStr s \<Rightarrow> Inr (JStr (take n s))
      | _ \<Rightarrow> Inl TypeError)"

section \<open>The Mem0 client\<close>

text \<open>
  An outbound call is a request to a path below \<^verbatim>\<open>MEM0_API_URL\<close>: \<^verbatim>\<open>client.post(url, json=...)\<close>
  or \<^verbatim>\<open>client.get(url, params=...)\<close>. The memory service is any function from the calls
  it has already received and the new call to a decoded body or a failure. The log of
  calls issued so far is passed through every operation; the clock gives
  \<^verbatim>\<open>datetime.now(timezone.utc).isoformat()\<close> at each call, indexed by the number of calls
  issued before.
\<close>

datatype request = Post string json | Get string json

type_synonym backend = "request list \<Rightarrow> request \<Rightarrow> py_error + json"

type_synonym clock = "nat \<Rightarrow> string"

definition add_payload ::
  "string \<Rightarrow> string \<Rightarrow> string \<Rightarrow> string option \<Rightarrow> (string \<times> json) list option \<Rightarrow> json" where
  "add_payload now content user_id project_id metadata =
     JObj [(''messages'', JArr [JObj [(''role'', JStr ''user''), (''content'', JStr content)]]),
           (''user_id'', JStr user_id),
           (''metadata'',
              JObj (dict_merge [(''project_id'', json_of_opt project_id),
                                (''captured_at'', JStr now)]
                               (or_empty metadata)))]"

definition mem0_add ::
  "backend \<Rightarrow> clock \<Rightarrow> request list \<Rightarrow> string \<Rightarrow> string \<Rightarrow> string option \<Rightarrow>
   (string \<times> json) list option \<Rightarrow> request list \<times> (py_error + json)" where
  "mem0_add be clk log content user_id project_id metadata =
     (let payload = add_payload (clk (length log)) content user_id project_id metadata;
          req = Post ''/v1/memories/'' payload
      in (log @ [req], be log req))"

definition search_params :: "string \<Rightarrow> string option \<Rightarrow> string option \<Rightarrow> int \<Rightarrow> json" where
  "search_params query user_id project_id limit =
     (let params = [(''query'', JStr query), (''limit'', JNum limit)];
          params = (if truthy user_id
                    then dict_set ''user_id'' (json_of_opt user_id) params else params);
          params = (if truthy project_id
                    then dict_set ''filters'' (JObj [(''project_id'', json_of_opt project_id)]) params
                    else params)
      in JObj params)"

definition mem0_search ::
  "backend \<Rightarrow> request list \<Rightarrow> string \<Rightarrow> string option \<Rightarrow> string option \<Rightarrow> int \<Rightarrow>
   request list \<times> (py_error + json)" where
  "mem0_search be log query user_id project_id limit =
     (let req = Post ''/v1/memories/search/'' (search_params query user_id project_id limit)
      in (log @ [req], be log req))"

definition mem0_get_all ::
  "backend \<Rightarrow> request list \<Rightarrow> string \<Rightarrow> string option \<Rightarrow> request list \<times> (py_error + json)" where
  "mem0_get_all be log user_id project_id =
     (let params = JObj [(''user_id'', JStr user_id)];
          req = Get ''/v1/memories/'' params
      in (log @ [req], be log req))"

section \<open>The session handlers\<close>

record SessionStart =
  user_id :: string
  project_id :: "string option"
  query :: "string option"

record SessionEnd =
  user_id :: string
  project_id :: "string option"
  transcript :: string

text \<open>
  A handler returns its dictionary, or raises \<^verbatim>\<open>HTTPException(status_code=500, detail=str(e))\<close>
  for the exception \<open>e\<close> it caught.
\<close>

datatype http_exception = HTTPException nat py_error

record start_result =
  status :: string
  user_id :: string
  project_id :: "string option"
  memories_count :: nat
  recent :: json
  relevant :: json

record end_result =
  status :: string
  signals_detected :: "string list"
  memories_captured :: "(string \<times> json) list"

text \<open>
  The body of the \<^verbatim>\<open>try\<close> block of \<^verbatim>\<open>session_start\<close>, in its order of evaluation: the
  listing, the search when the query is truthy (neither \<^verbatim>\<open>None\<close> nor empty), then the
  entries of the returned dictionary.
\<close>

definition session_start_body ::
  "backend \<Rightarrow> SessionStart \<Rightarrow> request list \<times> (py_error + start_result)" where
  "session_start_body be req =
     (case mem0_get_all be [] (SessionStart.user_id req) (SessionStart.project_id req) of
        (log, Inl e) \<Rightarrow> (log, Inl e)
      | (log, Inr memories) \<Rightarrow>
          (case (case query req of
                   None \<Rightarrow> (log, Inr (JArr []))
                 | Some q \<Rightarrow>
                     if q \<noteq> []
                     then (case mem0_search be log q (Some (SessionStart.user_id req))
                                  (SessionStart.project_id req) 5 of
                             (log', Inl e) \<Rightarrow> (log', Inl e)
                           | (log', Inr search_results) \<Rightarrow>
                               (log', py_get search_results ''results'' (JArr [])))
                     else (log, Inr (JArr []))) of
             (log', Inl e) \<Rightarrow> (log', Inl e)
           | (log', Inr rel) \<Rightarrow>
               (case py_get memories ''results'' (JArr []) of
                  Inl e \<Rightarrow> (log', Inl e)
                | Inr res \<Rightarrow>
                    (case py_len res of
                       Inl e \<Rightarrow> (log', Inl e)
                     | Inr n \<Rightarrow>
                         (case py_take 10 res of
                            Inl e \<Rightarrow> (log', Inl e)
                          | Inr rec \<Rightarrow>
                              (log', Inr \<lparr>start_result.status = ''ok'',
                                          start_result.user_id = SessionStart.user_id req,
                                          start_result.project_id = SessionStart.project_id req,
                                          start_result.memories_count = n,
                                          start_result.recent = rec,
                                          start_result.relevant = rel\<rparr>))))))"

definition session_start ::
  "backend \<Rightarrow> SessionStart \<Rightarrow> request list \<times> (http_exception + start_result)" where
  "session_start be req =
     (case session_start_body be req of
        (log, Inl e) \<Rightarrow> (log, Inl (HTTPException 500 e))
      | (log, Inr r) \<Rightarrow> (log, Inr r))"

text \<open>
  The \<^verbatim>\<open>for signal in signals\<close> loop of \<^verbatim>\<open>session_end\<close>: extract, add, append to
  \<^verbatim>\<open>captured\<close>. An exception leaves the loop at once.
\<close>

fun capture_loop ::
  "(string \<Rightarrow> string) \<Rightarrow> (char \<Rightarrow> bool) \<Rightarrow> backend \<Rightarrow> clock \<Rightarrow> SessionEnd \<Rightarrow> string list \<Rightarrow>
   request list \<Rightarrow> (string \<times> json) list \<Rightarrow>
   request list \<times> (py_error + (string \<times> json) list)" where
  "capture_loop lower isspace be clk req [] log captured = (log, Inr captured)"
| "capture_loop lower isspace be clk req (signal # rest) log captured =
     (let context = extract_signal_context lower isspace (transcript req) signal 200
      in case mem0_add be clk log context (SessionEnd.user_id req) (SessionEnd.project_id req)
                (Some [(''signal'', JStr signal), (''source'', JStr ''auto-capture'')]) of
           (log', Inl e) \<Rightarrow> (log', Inl e)
         | (log', Inr result) \<Rightarrow>
             (case py_get result ''id'' JNull of
                Inl e \<Rightarrow> (log', Inl e)
              | Inr memory_id \<Rightarrow>
                  capture_loop lower isspace be clk req rest log'
                    (captured @ [(signal, memory_id)])))"

definition session_end_body ::
  "(string \<Rightarrow> string) \<Rightarrow> (char \<Rightarrow> bool) \<Rightarrow> string list \<Rightarrow> backend \<Rightarrow> clock \<Rightarrow> SessionEnd \<Rightarrow>
   request list \<times> (py_error + end_result)" where
  "session_end_body lower isspace SIGNAL_KEYWORDS be clk req =
     (let signals = detect_signals lower isspace SIGNAL_KEYWORDS (transcript req)
      in case capture_loop lower isspace be clk req signals [] [] of
           (log, Inl e) \<Rightarrow> (log, Inl e)
         | (log, Inr captured) \<Rightarrow>
             (if length (transcript req) > 100
              then (case mem0_add be clk log
                           (''Session transcript:'' @ [CHR 0x0A] @ py_slice (transcript req) 0 5000)
                           (SessionEnd.user_id req) (SessionEnd.project_id req)
                           (Some [(''source'', JStr ''session-end''),
                                  (''full_transcript'', JBool True)]) of
                      (log', Inl e) \<Rightarrow> (log', Inl e)
                    | (log', Inr _) \<Rightarrow>
                        (log', Inr \<lparr>end_result.status = ''ok'',
                                    end_result.signals_detected = signals,
                                    end_result.memories_captured = captured\<rparr>))
              else (log, Inr \<lparr>end_result.status = ''ok'',
                               end_result.signals_detected = signals,
                               end_result.memories_captured = captured\<rparr>)))"

definition session_end ::
  "(string \<Rightarrow> string) \<Rightarrow> (char \<Rightarrow> bool) \<Rightarrow> string list \<Rightarrow> backend \<Rightarrow> clock \<Rightarrow> SessionEnd \<Rightarrow>
   request list \<times> (http_exception + end_result)" where
  "session_end lower isspace SIGNAL_KEYWORDS be clk req =
     (case session_end_body lower isspace SIGNAL_KEYWORDS be clk req of
        (log, Inl e) \<Rightarrow> (log, Inl (HTTPException 500 e))
      | (log, Inr r) \<Rightarrow> (log, Inr r))"

section \<open>The calls of a session end, as the specification lists them\<close>

text \<open>
  The request that the loop body of \<^verbatim>\<open>session_end\<close> issues for one signal when \<open>i\<close> calls
  have been issued before it, and the request for the transcript itself.
\<close>

definition signal_request ::
  "(string \<Rightarrow> string) \<Rightarrow> (char \<Rightarrow> bool) \<Rightarrow> clock \<Rightarrow> SessionEnd \<Rightarrow> nat \<Rightarrow> string \<Rightarrow> request" where
  "signal_request lower isspace clk req i signal =
     Post ''/v1/memories/''
       (add_payload (clk i) (extract_signal_context lower isspace (transcript req) signal 200)
          (SessionEnd.user_id req) (SessionEnd.project_id req)
          (Some [(''signal'', JStr signal), (''source'', JStr ''auto-capture'')]))"

definition transcript_request :: "clock \<Rightarrow> SessionEnd \<Rightarrow> nat \<Rightarrow> request" where
  "transcript_request clk req i =
     Post ''/v1/memories/''
       (add_payload (clk i)
          (''Session transcript:'' @ [CHR 0x0A] @ py_slice (transcript req) 0 5000)
          (SessionEnd.user_id req) (SessionEnd.project_id req)
          (Some [(''source'', JStr ''session-end''), (''full_transcript'', JBool True)]))"

text \<open>
  The specification of \<^verbatim>\<open>end()\<close>, steps 2 and 3: one add per detected signal, in the
  order of detection, then one add of the truncated transcript when the transcript has
  more than 100 characters. This follows the specification's words and is compared with
  the log of \<open>session_end\<close> below.
\<close>

fun signal_requests ::
  "(string \<Rightarrow> string) \<Rightarrow> (char \<Rightarrow> bool) \<Rightarrow> clock \<Rightarrow> SessionEnd \<Rightarrow> nat \<Rightarrow> string list \<Rightarrow>
   request list" where
  "signal_requests lower isspace clk req i [] = []"
| "signal_requests lower isspace clk req i (signal # rest) =
     signal_request lower isspace clk req i signal #
     signal_requests lower isspace clk req (Suc i) rest"

definition spec_end_calls ::
  "(string \<Rightarrow> string) \<Rightarrow> (char \<Rightarrow> bool) \<Rightarrow> string list \<Rightarrow> clock \<Rightarrow> SessionEnd \<Rightarrow> request list" where
  "spec_end_calls lower isspace SIGNAL_KEYWORDS clk req =
     (let signals = detect_signals lower isspace SIGNAL_KEYWORDS (transcript req)
      in signal_requests lower isspace clk req 0 signals @
         (if length (transcript req) > 100
          then [transcript_request clk req (length signals)] else []))"

section \<open>Facts about the string operations\<close>

lemma py_in_sublist: "py_in sub hay = sublist sub hay"
  by (induction hay) (simp_all add: sublist_Cons_right)

lemma detect_loop_filter:
  "detect_loop lower isspace ks low acc =
     acc @ map (strip isspace) (filter (\<lambda>k. py_in (lower (strip isspace k)) low) ks)"
  by (induction ks arbitrary: acc) simp_all

lemma detect_signals_filter:
  "detect_signals lower isspace T X =
     map (strip isspace) (filter (\<lambda>k. sublist (lower (strip isspace k)) (lower X)) T)"
  by (simp add: detect_signals_def detect_loop_filter py_in_sublist)



lemma py_slice_prefix: "0 \<le> w \<Longrightarrow> py_slice s 0 w = take (nat w) s"
  by (simp add: py_slice_def slice_index_def min_def)

section \<open>Signal detector\<close>




text \<open>
  Claim C9, as the code has it. The empty text gives the empty result for every trigger
  list none of whose entries is blank, that is, empty once trimmed and lower-cased (the
  lower-cased empty string being empty); the empty trigger list gives the empty result
  for every text.
\<close>

theorem detect_signals_empty:
  "(lower [] = [] \<and> (\<forall>t\<in>set T. lower (strip isspace t) \<noteq> []) \<longrightarrow>
      detect_signals lower isspace T [] = [])
   \<and> detect_signals lower isspace [] X = []"
  by (auto simp add: detect_signals_filter filter_empty_conv)

theorem detect_signals_empty_witness:
  "latin1_lower [] = []
   \<and> latin1_lower (strip latin1_isspace ''remember'') \<noteq> []
   \<and> latin1_lower (strip latin1_isspace ''decided'') \<noteq> []
   \<and> detect_signals latin1_lower latin1_isspace [''remember'', ''decided''] [] = []
   \<and> detect_signals latin1_lower latin1_isspace [] ''I remember'' = []"
proof -
  have e: "latin1_lower [] = []" by (simp add: latin1_lower_def)
  have h: "\<forall>t\<in>set [''remember'', ''decided'']. latin1_lower (strip latin1_isspace t) \<noteq> []"
    by (simp add: strip_def latin1_isspace_def latin1_lower_def)
  from detect_signals_empty [of latin1_lower "[''remember'', ''decided'']" latin1_isspace
      "''I remember''"] e h
  show ?thesis by simp
qed

text \<open>
  Claim C9 as stated fails for a non-empty trigger list with a blank entry, which is what
  an empty configuration value splits into: the empty keyword is a substring of the empty
  text. An entry of white space only, such as a no-break space, is blank too.
\<close>

theorem detect_signals_blank_counterexample:
  "detect_signals latin1_lower latin1_isspace [[]] [] = [[]]
   \<and> detect_signals latin1_lower latin1_isspace [[]] [] \<noteq> []
   \<and> detect_signals latin1_lower latin1_isspace [[CHR 0xA0]] [] = [[]]"
  by (simp add: detect_signals_def strip_def latin1_lower_def latin1_lower_char_def
      latin1_upper_def latin1_lowered_def latin1_isspace_def)

section \<open>Context extractor\<close>

text \<open>
  Claim C6. \<^verbatim>\<open>extract_signal_context\<close> finds the signal in the lower-cased text and cuts
  the excerpt out of the text itself at the position found there. Where lower-casing
  changes the length of what precedes the signal the two positions differ and the excerpt
  misses the signal. The text below is six times \<^verbatim>\<open>U+0130\<close> (capital I with dot above,
  which \<^verbatim>\<open>str.lower\<close> turns into the two code points \<^verbatim>\<open>U+0069 U+0307\<close>), a blank and
  \<^verbatim>\<open>remember\<close>, as code points; the signal is \<^verbatim>\<open>remember\<close> and the window 4. The first
  argument is \<^verbatim>\<open>str.lower\<close> on the code points that occur here, the second
  \<^verbatim>\<open>str.isspace\<close> below \<^verbatim>\<open>U+0100\<close>. The signal occurs in the lower-cased text at position
  13; the excerpt is \<^verbatim>\<open>text[11:15]\<close>, that is \<^verbatim>\<open>mber\<close>, which does not contain it. With
  101 such characters in front the same happens at the window 200 of \<^verbatim>\<open>session_end\<close>:
  the excerpt is \<^verbatim>\<open>emember\<close>.
\<close>

theorem extract_signal_context_dotted_I:
  "extract_signal_context
     (\<lambda>s. concat (map (\<lambda>c. if c = 0x130 then [0x69, 0x307]
                           else if 65 \<le> c \<and> c \<le> 90 then [c + 32] else [c]) s))
     (\<lambda>c. c \<in> set [9, 10, 11, 12, 13, 28, 29, 30, 31, 32, 0x85, 0xA0])
     [0x130, 0x130, 0x130, 0x130, 0x130, 0x130, 32, 114, 101, 109, 101, 109, 98, 101, 114]
     [114, 101, 109, 101, 109, 98, 101, 114] 4
   = [109, 98, 101, (114 :: nat)]
   \<and> py_in [114, 101, 109, 101, 109, 98, 101, 114]
        [0x69, 0x307, 0x69, 0x307, 0x69, 0x307, 0x69, 0x307, 0x69, 0x307, 0x69, 0x307,
         32, 114, 101, 109, 101, 109, 98, 101, (114 :: nat)]
   \<and> \<not> py_in [114, 101, 109, 101, 109, 98, 101, 114] [109, 98, 101, (114 :: nat)]
   \<and> extract_signal_context
     (\<lambda>s. concat (map (\<lambda>c. if c = 0x130 then [0x69, 0x307]
                           else if 65 \<le> c \<and> c \<le> 90 then [c + 32] else [c]) s))
     (\<lambda>c. c \<in> set [9, 10, 11, 12, 13, 28, 29, 30, 31, 32, 0x85, 0xA0])
     (replicate 101 0x130 @ [32, 114, 101, 109, 101, 109, 98, 101, 114])
     [114, 101, 109, 101, 109, 98, 101, 114] 200
   = [101, 109, 101, 109, 98, 101, (114 :: nat)]"
  by code_simp

section \<open>Memory gateway: the add operation\<close>

lemma map_of_dict_set: "map_of (dict_set k v d) = (map_of d)(k \<mapsto> v)"
  by (induction d) (auto simp: fun_eq_iff)



lemma map_of_dict_merge:
  "distinct (map fst md) \<Longrightarrow> map_of (dict_merge base md) = map_of base ++ map_of md"
proof (induction md arbitrary: base)
  case Nil
  show ?case by simp
next
  case (Cons p ps)
  obtain k v where p: "p = (k, v)" by (cases p)
  from Cons.prems p have nk: "map_of ps k = None" and d: "distinct (map fst ps)"
    by (simp_all add: map_of_eq_None_iff)
  have "map_of (dict_merge base (p # ps)) = map_of (dict_set k v base) ++ map_of ps"
    using Cons.IH [OF d] p by simp
  also have "\<dots> = (map_of base)(k \<mapsto> v) ++ map_of ps"
    by (simp only: map_of_dict_set)
  also have "\<dots> = map_of base ++ (map_of ps)(k \<mapsto> v)"
    using nk by (auto simp: fun_eq_iff map_add_def split: option.splits)
  also have "\<dots> = map_of base ++ map_of (p # ps)"
    using p by simp
  finally show ?case .
qed

lemma mem0_add_eq:
  "mem0_add be clk log content uid pid metadata =
     (log @ [Post ''/v1/memories/'' (add_payload (clk (length log)) content uid pid metadata)],
      be log (Post ''/v1/memories/'' (add_payload (clk (length log)) content uid pid metadata)))"
  by (simp add: mem0_add_def Let_def)

text \<open>
  Claim C3, as the code has it. The payload of every add carries a metadata dictionary
  built as \<^verbatim>\<open>{"project_id": ..., "captured_at": now, **(metadata or {})}\<close>: it always has
  the key \<^verbatim>\<open>captured_at\<close>; on every key the caller supplies, the timestamp key and
  \<^verbatim>\<open>project_id\<close> included, the caller's value is the one sent; the clock's reading is
  sent as \<^verbatim>\<open>captured_at\<close> when the caller supplies none.
\<close>

theorem mem0_add_metadata:
  assumes "distinct (map fst (or_empty metadata))"
  shows "\<exists>meta.
      fst (mem0_add be clk log content uid pid metadata) =
        log @ [Post ''/v1/memories/''
                 (JObj [(''messages'', JArr [JObj [(''role'', JStr ''user''), (''content'', JStr content)]]),
                        (''user_id'', JStr uid),
                        (''metadata'', JObj meta)])]
    \<and> ''captured_at'' \<in> dom (map_of meta)
    \<and> (\<forall>k v. map_of (or_empty metadata) k = Some v \<longrightarrow> map_of meta k = Some v)
    \<and> (map_of (or_empty metadata) ''captured_at'' = None \<longrightarrow>
          map_of meta ''captured_at'' = Some (JStr (clk (length log))))
    \<and> (map_of (or_empty metadata) ''project_id'' = None \<longrightarrow>
          map_of meta ''project_id'' = Some (json_of_opt pid))"
proof -
  define meta where "meta = dict_merge [(''project_id'', json_of_opt pid),
     (''captured_at'', JStr (clk (length log)))] (or_empty metadata)"
  have m: "map_of meta = map_of [(''project_id'', json_of_opt pid),
     (''captured_at'', JStr (clk (length log)))] ++ map_of (or_empty metadata)"
    unfolding meta_def using assms by (rule map_of_dict_merge)
  have 1: "fst (mem0_add be clk log content uid pid metadata) =
        log @ [Post ''/v1/memories/''
                 (JObj [(''messages'', JArr [JObj [(''role'', JStr ''user''), (''content'', JStr content)]]),
                        (''user_id'', JStr uid),
                        (''metadata'', JObj meta)])]"
    by (simp add: mem0_add_eq add_payload_def meta_def)
  have 2: "''captured_at'' \<in> dom (map_of meta)" unfolding m by simp
  have 3: "\<forall>k v. map_of (or_empty metadata) k = Some v \<longrightarrow> map_of meta k = Some v"
    unfolding m by (simp add: map_add_Some_iff)
  have 4: "map_of (or_empty metadata) ''captured_at'' = None \<longrightarrow>
          map_of meta ''captured_at'' = Some (JStr (clk (length log)))"
    unfolding m by (simp add: map_add_def)
  have 5: "map_of (or_empty metadata) ''project_id'' = None \<longrightarrow>
          map_of meta ''project_id'' = Some (json_of_opt pid)"
    unfolding m by (simp add: map_add_def)
  show ?thesis by (rule exI [of _ meta]) (intro conjI 1 2 3 4 5)
qed

theorem mem0_add_metadata_witness:
  "distinct (map fst (or_empty (Some [(''signal'', JStr ''remember''), (''project_id'', JStr ''mine'')])))
   \<and> (\<exists>meta.
      fst (mem0_add (\<lambda>log req. Inr JNull) (\<lambda>n. ''2026-01-01T00:00:00+00:00'') [] ''c'' ''u'' (Some ''p'')
             (Some [(''signal'', JStr ''remember''), (''project_id'', JStr ''mine'')])) =
        [Post ''/v1/memories/''
           (JObj [(''messages'', JArr [JObj [(''role'', JStr ''user''), (''content'', JStr ''c'')]]),
                  (''user_id'', JStr ''u''),
                  (''metadata'', JObj meta)])]
      \<and> map_of meta ''captured_at'' = Some (JStr ''2026-01-01T00:00:00+00:00'')
      \<and> map_of meta ''project_id'' = Some (JStr ''mine'')
      \<and> map_of meta ''signal'' = Some (JStr ''remember''))"
proof -
  have d: "distinct (map fst (or_empty (Some [(''signal'', JStr ''remember''), (''project_id'', JStr ''mine'')])))"
    by (simp add: or_empty_def)
  from mem0_add_metadata [OF d, of "\<lambda>log req. Inr JNull" "\<lambda>n. ''2026-01-01T00:00:00+00:00''" "[]"
      "''c''" "''u''" "Some ''p''"]
  obtain meta where m:
    "fst (mem0_add (\<lambda>log req. Inr JNull) (\<lambda>n. ''2026-01-01T00:00:00+00:00'') [] ''c'' ''u'' (Some ''p'')
             (Some [(''signal'', JStr ''remember''), (''project_id'', JStr ''mine'')])) =
        [] @ [Post ''/v1/memories/''
           (JObj [(''messages'', JArr [JObj [(''role'', JStr ''user''), (''content'', JStr ''c'')]]),
                  (''user_id'', JStr ''u''),
                  (''metadata'', JObj meta)])]"
    "\<forall>k v. map_of (or_empty (Some [(''signal'', JStr ''remember''), (''project_id'', JStr ''mine'')])) k = Some v
        \<longrightarrow> map_of meta k = Some v"
    "map_of (or_empty (Some [(''signal'', JStr ''remember''), (''project_id'', JStr ''mine'')])) ''captured_at'' = None
        \<longrightarrow> map_of meta ''captured_at'' = Some (JStr ''2026-01-01T00:00:00+00:00'')"
    by (elim exE conjE) (rule that)
  have "map_of meta ''captured_at'' = Some (JStr ''2026-01-01T00:00:00+00:00'')"
    using m(3) by (simp add: or_empty_def)
  moreover have "map_of meta ''project_id'' = Some (JStr ''mine'')"
    using m(2) by (simp add: or_empty_def)
  moreover have "map_of meta ''signal'' = Some (JStr ''remember'')"
    using m(2) by (simp add: or_empty_def)
  ultimately show ?thesis using d m(1) by auto
qed

text \<open>
  Claim C3 as stated fails on the timestamp: a caller who supplies \<^verbatim>\<open>captured_at\<close>
  overrides the clock's reading.
\<close>

theorem mem0_add_timestamp_counterexample:
  "fst (mem0_add (\<lambda>log req. Inr JNull) (\<lambda>n. ''2026-01-01T00:00:00+00:00'') [] ''c'' ''u'' (Some ''p'')
          (Some [(''captured_at'', JStr ''1999'')])) =
     [Post ''/v1/memories/''
        (JObj [(''messages'', JArr [JObj [(''role'', JStr ''user''), (''content'', JStr ''c'')]]),
               (''user_id'', JStr ''u''),
               (''metadata'', JObj [(''project_id'', JStr ''p''), (''captured_at'', JStr ''1999'')])])]
   \<and> JStr ''1999'' \<noteq> JStr ''2026-01-01T00:00:00+00:00''"
  by (simp add: mem0_add_def add_payload_def or_empty_def json_of_opt_def)




section \<open>Session coordinator: the end of a session\<close>

lemma capture_loop_Cons:
  "capture_loop lower isspace be clk req (s # rest) log cap =
     (case be log (signal_request lower isspace clk req (length log) s) of
        Inl e \<Rightarrow> (log @ [signal_request lower isspace clk req (length log) s], Inl e)
      | Inr result \<Rightarrow>
          (case py_get result ''id'' JNull of
             Inl e \<Rightarrow> (log @ [signal_request lower isspace clk req (length log) s], Inl e)
           | Inr memory_id \<Rightarrow>
               capture_loop lower isspace be clk req rest
                 (log @ [signal_request lower isspace clk req (length log) s])
                 (cap @ [(s, memory_id)])))"
  by (simp add: mem0_add_eq signal_request_def Let_def split: sum.splits)

lemma capture_loop_prefix:
  "capture_loop lower isspace be clk req sigs log cap = (log', r) \<Longrightarrow>
     \<exists>issued. log' = log @ issued \<and>
       prefix issued (signal_requests lower isspace clk req (length log) sigs)"
proof (induction sigs arbitrary: log cap)
  case Nil
  then show ?case by simp
next
  case (Cons s rest)
  let ?R = "signal_request lower isspace clk req (length log) s"
  show ?case
  proof (cases "be log ?R")
    case (Inl e)
    with Cons.prems have "log' = log @ [?R]"
      by (simp add: capture_loop_Cons del: capture_loop.simps(2))
    then show ?thesis by simp
  next
    case (Inr result)
    show ?thesis
    proof (cases "py_get result ''id'' JNull")
      case (Inl e)
      with Cons.prems Inr have "log' = log @ [?R]"
        by (simp add: capture_loop_Cons del: capture_loop.simps(2))
      then show ?thesis by simp
    next
      case (Inr memory_id)
      with Cons.prems \<open>be log ?R = Inr result\<close>
      have "capture_loop lower isspace be clk req rest (log @ [?R]) (cap @ [(s, memory_id)])
              = (log', r)"
        by (simp add: capture_loop_Cons del: capture_loop.simps(2))
      from Cons.IH [OF this] obtain issued where
        "log' = (log @ [?R]) @ issued"
        "prefix issued (signal_requests lower isspace clk req (length (log @ [?R])) rest)"
        by blast
      then have "log' = log @ (?R # issued)"
        "prefix (?R # issued) (signal_requests lower isspace clk req (length log) (s # rest))"
        by simp_all
      then show ?thesis by blast
    qed
  qed
qed

lemma capture_loop_ok:
  "capture_loop lower isspace be clk req sigs log cap = (log', Inr cap') \<Longrightarrow>
     log' = log @ signal_requests lower isspace clk req (length log) sigs \<and>
     map fst cap' = map fst cap @ sigs"
proof (induction sigs arbitrary: log cap)
  case Nil
  then show ?case by simp
next
  case (Cons s rest)
  let ?R = "signal_request lower isspace clk req (length log) s"
  from Cons.prems obtain result memory_id where
    ok: "be log ?R = Inr result" "py_get result ''id'' JNull = Inr memory_id"
    and rest: "capture_loop lower isspace be clk req rest (log @ [?R]) (cap @ [(s, memory_id)])
                 = (log', Inr cap')"
    by (auto simp: capture_loop_Cons simp del: capture_loop.simps(2) split: sum.splits)
  from Cons.IH [OF rest] show ?case by simp
qed

lemma length_signal_requests [simp]:
  "length (signal_requests lower isspace clk req i sigs) = length sigs"
  by (induction sigs arbitrary: i) simp_all

lemma signal_requests_append:
  "signal_requests lower isspace clk req i (xs @ ys) =
     signal_requests lower isspace clk req i xs @
     signal_requests lower isspace clk req (i + length xs) ys"
  by (induction xs arbitrary: i) simp_all

text \<open>When every add of the loop is answered with a dictionary, the loop runs to its end.\<close>

lemma capture_loop_all_ok:
  assumes "\<forall>i<length sigs. \<exists>kvs.
       be (log @ signal_requests lower isspace clk req (length log) (take i sigs))
          (signal_request lower isspace clk req (length log + i) (sigs ! i)) = Inr (JObj kvs)"
  shows "\<exists>caps. capture_loop lower isspace be clk req sigs log cap =
           (log @ signal_requests lower isspace clk req (length log) sigs, Inr caps)
         \<and> map fst caps = map fst cap @ sigs"
  using assms
proof (induction sigs arbitrary: log cap)
  case Nil
  then show ?case by simp
next
  case (Cons s rest)
  let ?R = "signal_request lower isspace clk req (length log) s"
  from Cons.prems [rule_format, of 0] obtain kvs where r: "be log ?R = Inr (JObj kvs)" by auto
  obtain v where v: "py_get (JObj kvs) ''id'' JNull = Inr v" by (simp add: py_get_def)
  have "\<forall>i<length rest. \<exists>kvs.
       be ((log @ [?R]) @ signal_requests lower isspace clk req (length (log @ [?R])) (take i rest))
          (signal_request lower isspace clk req (length (log @ [?R]) + i) (rest ! i)) = Inr (JObj kvs)"
  proof (intro allI impI)
    fix i assume "i < length rest"
    then have "Suc i < length (s # rest)" by simp
    from Cons.prems [rule_format, OF this] show "\<exists>kvs.
       be ((log @ [?R]) @ signal_requests lower isspace clk req (length (log @ [?R])) (take i rest))
          (signal_request lower isspace clk req (length (log @ [?R]) + i) (rest ! i)) = Inr (JObj kvs)"
      by simp
  qed
  from Cons.IH [OF this, of "cap @ [(s, v)]"] obtain caps where
    "capture_loop lower isspace be clk req rest (log @ [?R]) (cap @ [(s, v)]) =
       ((log @ [?R]) @ signal_requests lower isspace clk req (length (log @ [?R])) rest, Inr caps)"
    "map fst caps = map fst (cap @ [(s, v)]) @ rest" by blast
  with r v show ?case by (simp add: capture_loop_Cons del: capture_loop.simps(2))
qed

text \<open>The first add that fails ends the loop: what follows it is not issued.\<close>

lemma capture_loop_first_failure:
  assumes "\<forall>i<length pre. \<exists>kvs.
       be (log @ signal_requests lower isspace clk req (length log) (take i pre))
          (signal_request lower isspace clk req (length log + i) (pre ! i)) = Inr (JObj kvs)"
    and "be (log @ signal_requests lower isspace clk req (length log) pre)
            (signal_request lower isspace clk req (length log + length pre) s) = Inl e"
  shows "capture_loop lower isspace be clk req (pre @ s # post) log cap =
           (log @ signal_requests lower isspace clk req (length log) (pre @ [s]), Inl e)"
  using assms
proof (induction pre arbitrary: log cap)
  case Nil
  then show ?case by (simp add: capture_loop_Cons del: capture_loop.simps(2))
next
  case (Cons p pre)
  let ?R = "signal_request lower isspace clk req (length log) p"
  from Cons.prems(1) [rule_format, of 0] obtain kvs where r: "be log ?R = Inr (JObj kvs)" by auto
  obtain v where v: "py_get (JObj kvs) ''id'' JNull = Inr v" by (simp add: py_get_def)
  have ok: "\<forall>i<length pre. \<exists>kvs.
       be ((log @ [?R]) @ signal_requests lower isspace clk req (length (log @ [?R])) (take i pre))
          (signal_request lower isspace clk req (length (log @ [?R]) + i) (pre ! i)) = Inr (JObj kvs)"
  proof (intro allI impI)
    fix i assume "i < length pre"
    then have "Suc i < length (p # pre)" by simp
    from Cons.prems(1) [rule_format, OF this] show "\<exists>kvs.
       be ((log @ [?R]) @ signal_requests lower isspace clk req (length (log @ [?R])) (take i pre))
          (signal_request lower isspace clk req (length (log @ [?R]) + i) (pre ! i)) = Inr (JObj kvs)"
      by simp
  qed
  have fail: "be ((log @ [?R]) @ signal_requests lower isspace clk req (length (log @ [?R])) pre)
            (signal_request lower isspace clk req (length (log @ [?R]) + length pre) s) = Inl e"
    using Cons.prems(2) by simp
  from Cons.IH [OF ok fail, of "cap @ [(p, v)]"] r v
  show ?case by (simp add: capture_loop_Cons del: capture_loop.simps(2))
qed

lemma session_end_body_prefix:
  "prefix (fst (session_end_body lower isspace T be clk req)) (spec_end_calls lower isspace T clk req)"
proof -
  let ?sigs = "detect_signals lower isspace T (transcript req)"
  obtain log r where c: "capture_loop lower isspace be clk req ?sigs [] [] = (log, r)"
    by (cases "capture_loop lower isspace be clk req ?sigs [] []")
  from capture_loop_prefix [OF c]
  have p: "prefix log (signal_requests lower isspace clk req 0 ?sigs)" by simp
  show ?thesis
  proof (cases r)
    case (Inl e)
    with c p show ?thesis
      by (simp add: session_end_body_def spec_end_calls_def Let_def prefix_prefix)
  next
    case (Inr captured)
    with c capture_loop_ok [of lower isspace be clk req ?sigs "[]" "[]" log captured]
    have l: "log = signal_requests lower isspace clk req 0 ?sigs" by simp
    show ?thesis
      using c Inr l
      by (auto simp: session_end_body_def spec_end_calls_def Let_def mem0_add_eq
          transcript_request_def split: sum.splits)
  qed
qed

lemma session_end_body_ok:
  assumes "snd (session_end_body lower isspace T be clk req) = Inr r"
  shows "fst (session_end_body lower isspace T be clk req) = spec_end_calls lower isspace T clk req
       \<and> signals_detected r = detect_signals lower isspace T (transcript req)
       \<and> map fst (memories_captured r) = detect_signals lower isspace T (transcript req)
       \<and> end_result.status r = ''ok''"
proof -
  let ?sigs = "detect_signals lower isspace T (transcript req)"
  obtain log r' where c: "capture_loop lower isspace be clk req ?sigs [] [] = (log, r')"
    by (cases "capture_loop lower isspace be clk req ?sigs [] []")
  from assms c obtain captured where r': "r' = Inr captured"
    by (cases r') (auto simp: session_end_body_def Let_def)
  from c r' capture_loop_ok [of lower isspace be clk req ?sigs "[]" "[]" log captured]
  have l: "log = signal_requests lower isspace clk req 0 ?sigs" "map fst captured = ?sigs"
    by simp_all
  show ?thesis
    using assms c r' l
    by (auto simp: session_end_body_def spec_end_calls_def Let_def mem0_add_eq
        transcript_request_def split: sum.splits if_splits)
qed

lemma session_end_fst:
  "fst (session_end lower isspace T be clk req) = fst (session_end_body lower isspace T be clk req)"
  by (simp add: session_end_def split: prod.splits sum.splits)

lemma session_end_snd_ok:
  "snd (session_end lower isspace T be clk req) = Inr r \<longleftrightarrow>
   snd (session_end_body lower isspace T be clk req) = Inr r"
  by (auto simp: session_end_def split: prod.splits sum.splits)

lemma signal_request_shape:
  "signal_request lower isspace clk req i s =
     Post ''/v1/memories/''
       (JObj [(''messages'', JArr [JObj [(''role'', JStr ''user''),
                 (''content'', JStr (extract_signal_context lower isspace (transcript req) s 200))]]),
              (''user_id'', JStr (SessionEnd.user_id req)),
              (''metadata'', JObj [(''project_id'', json_of_opt (SessionEnd.project_id req)),
                                   (''captured_at'', JStr (clk i)),
                                   (''signal'', JStr s),
                                   (''source'', JStr ''auto-capture'')])])"
  by (simp add: signal_request_def add_payload_def or_empty_def)

lemma transcript_request_shape:
  "transcript_request clk req i =
     Post ''/v1/memories/''
       (JObj [(''messages'', JArr [JObj [(''role'', JStr ''user''),
                 (''content'', JStr (''Session transcript:'' @ [CHR 0x0A] @ take 5000 (transcript req)))]]),
              (''user_id'', JStr (SessionEnd.user_id req)),
              (''metadata'', JObj [(''project_id'', json_of_opt (SessionEnd.project_id req)),
                                   (''captured_at'', JStr (clk i)),
                                   (''source'', JStr ''session-end''),
                                   (''full_transcript'', JBool True)])])"
  by (simp add: transcript_request_def add_payload_def or_empty_def py_slice_prefix)

lemma session_end_no_calls:
  assumes "detect_signals lower isspace T (transcript req) = []" "length (transcript req) \<le> 100"
  shows "session_end lower isspace T be clk req =
           ([], Inr \<lparr>end_result.status = ''ok'', end_result.signals_detected = [],
                     end_result.memories_captured = []\<rparr>)"
  using assms by (simp add: session_end_def session_end_body_def)

text \<open>When no add fails, the call returns and has issued the specification's list.\<close>

lemma session_end_all_ok:
  assumes ok: "\<forall>i<length (detect_signals lower isspace T (transcript req)). \<exists>kvs.
       be (signal_requests lower isspace clk req 0
             (take i (detect_signals lower isspace T (transcript req))))
          (signal_request lower isspace clk req i
             (detect_signals lower isspace T (transcript req) ! i)) = Inr (JObj kvs)"
    and tr: "length (transcript req) > 100 \<longrightarrow>
       (\<exists>j. be (signal_requests lower isspace clk req 0
                  (detect_signals lower isspace T (transcript req)))
               (transcript_request clk req
                  (length (detect_signals lower isspace T (transcript req)))) = Inr j)"
  shows "\<exists>caps. session_end lower isspace T be clk req =
           (spec_end_calls lower isspace T clk req,
            Inr \<lparr>end_result.status = ''ok'',
                 end_result.signals_detected = detect_signals lower isspace T (transcript req),
                 end_result.memories_captured = caps\<rparr>)
         \<and> map fst caps = detect_signals lower isspace T (transcript req)"
proof -
  let ?sigs = "detect_signals lower isspace T (transcript req)"
  from ok have "\<forall>i<length ?sigs. \<exists>kvs.
       be ([] @ signal_requests lower isspace clk req (length ([] :: request list)) (take i ?sigs))
          (signal_request lower isspace clk req (length ([] :: request list) + i) (?sigs ! i))
        = Inr (JObj kvs)"
    by simp
  from capture_loop_all_ok [OF this, of "[]"] obtain caps where
    c: "capture_loop lower isspace be clk req ?sigs [] [] =
          (signal_requests lower isspace clk req 0 ?sigs, Inr caps)"
    and m: "map fst caps = ?sigs" by auto
  show ?thesis
  proof (cases "length (transcript req) > 100")
    case True
    with tr obtain j where "be (signal_requests lower isspace clk req 0 ?sigs)
               (transcript_request clk req (length ?sigs)) = Inr j" by blast
    with c m True show ?thesis
      by (simp add: session_end_def session_end_body_def spec_end_calls_def Let_def mem0_add_eq
          transcript_request_def)
  next
    case False
    with c m show ?thesis
      by (simp add: session_end_def session_end_body_def spec_end_calls_def Let_def)
  qed
qed

lemma session_end_signal_failure:
  assumes "detect_signals lower isspace T (transcript req) = pre @ s # post"
    and "\<forall>i<length pre. \<exists>kvs.
       be (signal_requests lower isspace clk req 0 (take i pre))
          (signal_request lower isspace clk req i (pre ! i)) = Inr (JObj kvs)"
    and "be (signal_requests lower isspace clk req 0 pre)
            (signal_request lower isspace clk req (length pre) s) = Inl e"
  shows "session_end lower isspace T be clk req =
           (signal_requests lower isspace clk req 0 (pre @ [s]), Inl (HTTPException 500 e))"
proof -
  from assms(2) have "\<forall>i<length pre. \<exists>kvs.
       be ([] @ signal_requests lower isspace clk req (length ([] :: request list)) (take i pre))
          (signal_request lower isspace clk req (length ([] :: request list) + i) (pre ! i))
        = Inr (JObj kvs)"
    by simp
  moreover from assms(3) have
    "be ([] @ signal_requests lower isspace clk req (length ([] :: request list)) pre)
        (signal_request lower isspace clk req (length ([] :: request list) + length pre) s) = Inl e"
    by simp
  ultimately have "capture_loop lower isspace be clk req (pre @ s # post) [] [] =
      ([] @ signal_requests lower isspace clk req (length ([] :: request list)) (pre @ [s]), Inl e)"
    by (rule capture_loop_first_failure)
  with assms(1) show ?thesis
    by (simp add: session_end_def session_end_body_def)
qed

lemma session_end_transcript_failure:
  assumes "\<forall>i<length (detect_signals lower isspace T (transcript req)). \<exists>kvs.
       be (signal_requests lower isspace clk req 0
             (take i (detect_signals lower isspace T (transcript req))))
          (signal_request lower isspace clk req i
             (detect_signals lower isspace T (transcript req) ! i)) = Inr (JObj kvs)"
    and "length (transcript req) > 100"
    and "be (signal_requests lower isspace clk req 0
               (detect_signals lower isspace T (transcript req)))
            (transcript_request clk req
               (length (detect_signals lower isspace T (transcript req)))) = Inl e"
  shows "session_end lower isspace T be clk req =
           (spec_end_calls lower isspace T clk req, Inl (HTTPException 500 e))"
proof -
  let ?sigs = "detect_signals lower isspace T (transcript req)"
  from assms(1) have "\<forall>i<length ?sigs. \<exists>kvs.
       be ([] @ signal_requests lower isspace clk req (length ([] :: request list)) (take i ?sigs))
          (signal_request lower isspace clk req (length ([] :: request list) + i) (?sigs ! i))
        = Inr (JObj kvs)"
    by simp
  from capture_loop_all_ok [OF this, of "[]"] obtain caps where
    c: "capture_loop lower isspace be clk req ?sigs [] [] =
          (signal_requests lower isspace clk req 0 ?sigs, Inr caps)" by auto
  with assms(2,3) show ?thesis
    by (simp add: session_end_def session_end_body_def spec_end_calls_def Let_def mem0_add_eq
        transcript_request_def)
qed

text \<open>
  Claim C7, as the code has it. The calls issued by \<open>session_end\<close> are always an initial
  part of the list the specification gives. When no add fails (every add for a signal is
  answered with a dictionary and the add of the transcript is answered at all) the call
  returns and has issued exactly that list: one add per detected signal, in the order of
  the trigger configuration, with the excerpt as content and the tags \<^verbatim>\<open>signal\<close> and
  \<^verbatim>\<open>source = "auto-capture"\<close>, followed by one add of \<^verbatim>\<open>"Session transcript:\n"\<close> and the
  first 5000 characters of the transcript, tagged \<^verbatim>\<open>source = "session-end"\<close> and
  \<^verbatim>\<open>full_transcript = True\<close>, exactly when the transcript has more than 100 characters.
  The same list has been issued whenever the call returns. With no detected signal and at
  most 100 characters (so at length 50) no call is issued and both returned lists are
  empty, whatever the memory service does.
\<close>

theorem session_end_calls:
  "prefix (fst (session_end lower isspace T be clk req)) (spec_end_calls lower isspace T clk req)
   \<and> ((\<forall>i<length (detect_signals lower isspace T (transcript req)). \<exists>kvs.
          be (signal_requests lower isspace clk req 0
                (take i (detect_signals lower isspace T (transcript req))))
             (signal_request lower isspace clk req i
                (detect_signals lower isspace T (transcript req) ! i)) = Inr (JObj kvs))
       \<and> (length (transcript req) > 100 \<longrightarrow>
            (\<exists>j. be (signal_requests lower isspace clk req 0
                       (detect_signals lower isspace T (transcript req)))
                    (transcript_request clk req
                       (length (detect_signals lower isspace T (transcript req)))) = Inr j))
       \<longrightarrow> (\<exists>caps. session_end lower isspace T be clk req =
                (spec_end_calls lower isspace T clk req,
                 Inr \<lparr>end_result.status = ''ok'',
                      end_result.signals_detected = detect_signals lower isspace T (transcript req),
                      end_result.memories_captured = caps\<rparr>)
              \<and> map fst caps = detect_signals lower isspace T (transcript req)))
   \<and> length (spec_end_calls lower isspace T clk req) =
         length (detect_signals lower isspace T (transcript req))
         + (if length (transcript req) > 100 then 1 else 0)
   \<and> (\<forall>r. snd (session_end lower isspace T be clk req) = Inr r \<longrightarrow>
          fst (session_end lower isspace T be clk req) = spec_end_calls lower isspace T clk req
        \<and> signals_detected r = detect_signals lower isspace T (transcript req)
        \<and> map fst (memories_captured r) = detect_signals lower isspace T (transcript req))
   \<and> (detect_signals lower isspace T (transcript req) = [] \<and> length (transcript req) \<le> 100 \<longrightarrow>
        session_end lower isspace T be clk req =
          ([], Inr \<lparr>end_result.status = ''ok'', end_result.signals_detected = [],
                    end_result.memories_captured = []\<rparr>))
   \<and> signal_request lower isspace clk req i s =
       Post ''/v1/memories/''
         (JObj [(''messages'', JArr [JObj [(''role'', JStr ''user''),
                   (''content'', JStr (extract_signal_context lower isspace (transcript req) s 200))]]),
                (''user_id'', JStr (SessionEnd.user_id req)),
                (''metadata'', JObj [(''project_id'', json_of_opt (SessionEnd.project_id req)),
                                     (''captured_at'', JStr (clk i)),
                                     (''signal'', JStr s),
                                     (''source'', JStr ''auto-capture'')])])
   \<and> transcript_request clk req i =
       Post ''/v1/memories/''
         (JObj [(''messages'', JArr [JObj [(''role'', JStr ''user''),
                   (''content'', JStr (''Session transcript:'' @ [CHR 0x0A] @ take 5000 (transcript req)))]]),
                (''user_id'', JStr (SessionEnd.user_id req)),
                (''metadata'', JObj [(''project_id'', json_of_opt (SessionEnd.project_id req)),
                                     (''captured_at'', JStr (clk i)),
                                     (''source'', JStr ''session-end''),
                                     (''full_transcript'', JBool True)])])"
proof (intro conjI allI impI)
  show "prefix (fst (session_end lower isspace T be clk req)) (spec_end_calls lower isspace T clk req)"
    by (simp add: session_end_fst session_end_body_prefix)
next
  assume "(\<forall>i<length (detect_signals lower isspace T (transcript req)). \<exists>kvs.
          be (signal_requests lower isspace clk req 0
                (take i (detect_signals lower isspace T (transcript req))))
             (signal_request lower isspace clk req i
                (detect_signals lower isspace T (transcript req) ! i)) = Inr (JObj kvs))
       \<and> (length (transcript req) > 100 \<longrightarrow>
            (\<exists>j. be (signal_requests lower isspace clk req 0
                       (detect_signals lower isspace T (transcript req)))
                    (transcript_request clk req
                       (length (detect_signals lower isspace T (transcript req)))) = Inr j))"
  then show "\<exists>caps. session_end lower isspace T be clk req =
                (spec_end_calls lower isspace T clk req,
                 Inr \<lparr>end_result.status = ''ok'',
                      end_result.signals_detected = detect_signals lower isspace T (transcript req),
                      end_result.memories_captured = caps\<rparr>)
              \<and> map fst caps = detect_signals lower isspace T (transcript req)"
    using session_end_all_ok [of lower isspace T req be clk] by blast
next
  show "length (spec_end_calls lower isspace T clk req) =
         length (detect_signals lower isspace T (transcript req))
         + (if length (transcript req) > 100 then 1 else 0)"
    by (simp add: spec_end_calls_def Let_def)
next
  fix r assume "snd (session_end lower isspace T be clk req) = Inr r"
  then have ok: "snd (session_end_body lower isspace T be clk req) = Inr r"
    by (simp add: session_end_snd_ok)
  from session_end_body_ok [OF ok]
  show "fst (session_end lower isspace T be clk req) = spec_end_calls lower isspace T clk req"
    and "signals_detected r = detect_signals lower isspace T (transcript req)"
    and "map fst (memories_captured r) = detect_signals lower isspace T (transcript req)"
    by (simp_all add: session_end_fst)
next
  assume "detect_signals lower isspace T (transcript req) = [] \<and> length (transcript req) \<le> 100"
  then show "session_end lower isspace T be clk req =
          ([], Inr \<lparr>end_result.status = ''ok'', end_result.signals_detected = [],
                    end_result.memories_captured = []\<rparr>)"
    by (simp add: session_end_no_calls)
qed (rule signal_request_shape transcript_request_shape)+

theorem session_end_calls_witness:
  "session_end latin1_lower latin1_isspace [''remember'', ''decided'']
      (\<lambda>log r. Inr (JObj [(''id'', JStr ''m1'')])) (\<lambda>n. ''t'')
      \<lparr>SessionEnd.user_id = ''u'', SessionEnd.project_id = Some ''p'',
      SessionEnd.transcript = ''We decided on Postgres, I remember''\<rparr>
     = (spec_end_calls latin1_lower latin1_isspace [''remember'', ''decided''] (\<lambda>n. ''t'')
          \<lparr>SessionEnd.user_id = ''u'', SessionEnd.project_id = Some ''p'',
      SessionEnd.transcript = ''We decided on Postgres, I remember''\<rparr>,
        Inr \<lparr>end_result.status = ''ok'',
             end_result.signals_detected = [''remember'', ''decided''],
             end_result.memories_captured = [(''remember'', JStr ''m1''), (''decided'', JStr ''m1'')]\<rparr>)
   \<and> length (spec_end_calls latin1_lower latin1_isspace [''remember'', ''decided''] (\<lambda>n. ''t'')
          \<lparr>SessionEnd.user_id = ''u'', SessionEnd.project_id = Some ''p'',
      SessionEnd.transcript = ''We decided on Postgres, I remember''\<rparr>) = 2
   \<and> session_end latin1_lower latin1_isspace [''architecture'']
      (\<lambda>log r. Inr (JObj [(''id'', JStr ''m1'')])) (\<lambda>n. ''t'')
      \<lparr>SessionEnd.user_id = ''u'', SessionEnd.project_id = Some ''p'',
      SessionEnd.transcript = ''We met on Monday. I remember the plan: ship the parser first, then the index, then the sync service, and review in June.''\<rparr>
     = (spec_end_calls latin1_lower latin1_isspace [''architecture''] (\<lambda>n. ''t'')
          \<lparr>SessionEnd.user_id = ''u'', SessionEnd.project_id = Some ''p'',
      SessionEnd.transcript = ''We met on Monday. I remember the plan: ship the parser first, then the index, then the sync service, and review in June.''\<rparr>,
        Inr \<lparr>end_result.status = ''ok'', end_result.signals_detected = [],
             end_result.memories_captured = []\<rparr>)
   \<and> length (spec_end_calls latin1_lower latin1_isspace [''architecture''] (\<lambda>n. ''t'')
          \<lparr>SessionEnd.user_id = ''u'', SessionEnd.project_id = Some ''p'',
      SessionEnd.transcript = ''We met on Monday. I remember the plan: ship the parser first, then the index, then the sync service, and review in June.''\<rparr>) = 1
   \<and> detect_signals latin1_lower latin1_isspace [''remember'', ''decided'']
         (transcript \<lparr>SessionEnd.user_id = ''u'', SessionEnd.project_id = Some ''p'',
      SessionEnd.transcript = ''The weather was fine and nothing else was said ok.''\<rparr>) = []
   \<and> length (transcript \<lparr>SessionEnd.user_id = ''u'', SessionEnd.project_id = Some ''p'',
      SessionEnd.transcript = ''The weather was fine and nothing else was said ok.''\<rparr>) = 50
   \<and> session_end latin1_lower latin1_isspace [''remember'', ''decided'']
        (\<lambda>log r. Inl (RequestFailed ''down'')) (\<lambda>n. ''t'')
        \<lparr>SessionEnd.user_id = ''u'', SessionEnd.project_id = Some ''p'',
      SessionEnd.transcript = ''The weather was fine and nothing else was said ok.''\<rparr>
     = ([], Inr \<lparr>end_result.status = ''ok'', end_result.signals_detected = [],
                  end_result.memories_captured = []\<rparr>)"
proof -
  let ?ok = "\<lambda>(log :: request list) (r :: request). (Inr (JObj [(''id'', JStr ''m1'')]) :: py_error + json)"
  let ?down = "\<lambda>(log :: request list) (r :: request). (Inl (RequestFailed ''down'') :: py_error + json)"
  let ?clk = "\<lambda>n :: nat. ''t''"
  let ?A = "\<lparr>SessionEnd.user_id = ''u'', SessionEnd.project_id = Some ''p'',
      SessionEnd.transcript = ''We decided on Postgres, I remember''\<rparr>"
  let ?B = "\<lparr>SessionEnd.user_id = ''u'', SessionEnd.project_id = Some ''p'',
      SessionEnd.transcript = ''We met on Monday. I remember the plan: ship the parser first, then the index, then the sync service, and review in June.''\<rparr>"
  let ?C = "\<lparr>SessionEnd.user_id = ''u'', SessionEnd.project_id = Some ''p'',
      SessionEnd.transcript = ''The weather was fine and nothing else was said ok.''\<rparr>"
  have da: "detect_signals latin1_lower latin1_isspace [''remember'', ''decided''] (transcript ?A)
              = [''remember'', ''decided'']"
    by code_simp
  have db: "detect_signals latin1_lower latin1_isspace [''architecture''] (transcript ?B) = []"
    by code_simp
  have lb: "length (transcript ?B) > 100" by simp
  have la: "\<not> length (transcript ?A) > 100" by simp
  have c: "detect_signals latin1_lower latin1_isspace [''remember'', ''decided''] (transcript ?C) = []"
    by code_simp
  have lc: "length (transcript ?C) = 50" by simp
  note A = session_end_calls [of latin1_lower latin1_isspace "[''remember'', ''decided'']" ?ok ?clk ?A 0 "[]"]
  note B = session_end_calls [of latin1_lower latin1_isspace "[''architecture'']" ?ok ?clk ?B 0 "[]"]
  note C = session_end_calls [of latin1_lower latin1_isspace "[''remember'', ''decided'']" ?down ?clk ?C 0 "[]"]
  from A obtain caps where
    a1: "session_end latin1_lower latin1_isspace [''remember'', ''decided''] ?ok ?clk ?A =
          (spec_end_calls latin1_lower latin1_isspace [''remember'', ''decided''] ?clk ?A,
           Inr \<lparr>end_result.status = ''ok'',
                end_result.signals_detected =
                  detect_signals latin1_lower latin1_isspace [''remember'', ''decided''] (transcript ?A),
                end_result.memories_captured = caps\<rparr>)"
    using la by auto
  have "snd (session_end latin1_lower latin1_isspace [''remember'', ''decided''] ?ok ?clk ?A) =
         Inr \<lparr>end_result.status = ''ok'',
              end_result.signals_detected = [''remember'', ''decided''],
              end_result.memories_captured = [(''remember'', JStr ''m1''), (''decided'', JStr ''m1'')]\<rparr>"
    using da
    by (simp add: session_end_def session_end_body_def mem0_add_def py_get_def)
  with a1 have 1: "session_end latin1_lower latin1_isspace [''remember'', ''decided''] ?ok ?clk ?A =
          (spec_end_calls latin1_lower latin1_isspace [''remember'', ''decided''] ?clk ?A,
           Inr \<lparr>end_result.status = ''ok'',
              end_result.signals_detected = [''remember'', ''decided''],
              end_result.memories_captured = [(''remember'', JStr ''m1''), (''decided'', JStr ''m1'')]\<rparr>)"
    by simp
  from A have "length (spec_end_calls latin1_lower latin1_isspace [''remember'', ''decided''] ?clk ?A) =
         length (detect_signals latin1_lower latin1_isspace [''remember'', ''decided''] (transcript ?A))
         + (if length (transcript ?A) > 100 then 1 else 0)"
    by blast
  then have 2: "length (spec_end_calls latin1_lower latin1_isspace [''remember'', ''decided''] ?clk ?A) = 2"
    unfolding da using la by simp
  from B obtain capsb where
    "session_end latin1_lower latin1_isspace [''architecture''] ?ok ?clk ?B =
          (spec_end_calls latin1_lower latin1_isspace [''architecture''] ?clk ?B,
           Inr \<lparr>end_result.status = ''ok'',
                end_result.signals_detected =
                  detect_signals latin1_lower latin1_isspace [''architecture''] (transcript ?B),
                end_result.memories_captured = capsb\<rparr>)"
    "map fst capsb = detect_signals latin1_lower latin1_isspace [''architecture''] (transcript ?B)"
    unfolding db by auto
  then have 3: "session_end latin1_lower latin1_isspace [''architecture''] ?ok ?clk ?B =
          (spec_end_calls latin1_lower latin1_isspace [''architecture''] ?clk ?B,
           Inr \<lparr>end_result.status = ''ok'', end_result.signals_detected = [],
                end_result.memories_captured = []\<rparr>)"
    unfolding db by simp
  from B have "length (spec_end_calls latin1_lower latin1_isspace [''architecture''] ?clk ?B) =
         length (detect_signals latin1_lower latin1_isspace [''architecture''] (transcript ?B))
         + (if length (transcript ?B) > 100 then 1 else 0)"
    by blast
  then have 4: "length (spec_end_calls latin1_lower latin1_isspace [''architecture''] ?clk ?B) = 1"
    unfolding db using lb by simp
  from C c lc have 5: "session_end latin1_lower latin1_isspace [''remember'', ''decided''] ?down ?clk ?C
     = ([], Inr \<lparr>end_result.status = ''ok'', end_result.signals_detected = [],
                  end_result.memories_captured = []\<rparr>)"
    by simp
  from 1 2 3 4 c lc 5 show ?thesis by (intro conjI)
qed

text \<open>
  Claim C7 as stated fails when an add fails: for a transcript of 120 characters with one
  detected signal and a memory service that is down, one call is issued where the
  specification lists two.
\<close>

theorem session_end_failure_counterexample:
  "detect_signals latin1_lower latin1_isspace [''remember''] (transcript \<lparr>SessionEnd.user_id = ''u'', SessionEnd.project_id = Some ''p'',
      SessionEnd.transcript = ''We met on Monday. I remember the plan: ship the parser first, then the index, then the sync service, and review in June.''\<rparr>) = [''remember'']
   \<and> length (transcript \<lparr>SessionEnd.user_id = ''u'', SessionEnd.project_id = Some ''p'',
      SessionEnd.transcript = ''We met on Monday. I remember the plan: ship the parser first, then the index, then the sync service, and review in June.''\<rparr>) = 120
   \<and> length (fst (session_end latin1_lower latin1_isspace [''remember'']
        (\<lambda>log r. Inl (RequestFailed ''down'')) (\<lambda>n. ''t'')
        \<lparr>SessionEnd.user_id = ''u'', SessionEnd.project_id = Some ''p'',
      SessionEnd.transcript = ''We met on Monday. I remember the plan: ship the parser first, then the index, then the sync service, and review in June.''\<rparr>)) = 1
   \<and> snd (session_end latin1_lower latin1_isspace [''remember'']
        (\<lambda>log r. Inl (RequestFailed ''down'')) (\<lambda>n. ''t'')
        \<lparr>SessionEnd.user_id = ''u'', SessionEnd.project_id = Some ''p'',
      SessionEnd.transcript = ''We met on Monday. I remember the plan: ship the parser first, then the index, then the sync service, and review in June.''\<rparr>) = Inl (HTTPException 500 (RequestFailed ''down''))
   \<and> length (spec_end_calls latin1_lower latin1_isspace [''remember''] (\<lambda>n. ''t'')
        \<lparr>SessionEnd.user_id = ''u'', SessionEnd.project_id = Some ''p'',
      SessionEnd.transcript = ''We met on Monday. I remember the plan: ship the parser first, then the index, then the sync service, and review in June.''\<rparr>) = 2"
proof -
  have d: "detect_signals latin1_lower latin1_isspace [''remember''] (transcript \<lparr>SessionEnd.user_id = ''u'', SessionEnd.project_id = Some ''p'',
      SessionEnd.transcript = ''We met on Monday. I remember the plan: ship the parser first, then the index, then the sync service, and review in June.''\<rparr>) = [''remember'']"
    by code_simp
  then show ?thesis
    by (simp add: session_end_def session_end_body_def spec_end_calls_def mem0_add_def)
qed

text \<open>
  Claim C2. The first add that fails ends the workflow. When the adds for the signals
  before \<open>s\<close> are answered with a dictionary and the add for \<open>s\<close> fails, \<open>session_end\<close> has
  issued exactly the adds up to that one (no add for a later signal and no add of the
  transcript follows) and raises one \<^verbatim>\<open>HTTPException(500)\<close> carrying the failure; no
  capture result is returned. When all adds for the signals succeed and the add of the
  transcript fails, the call raises the same way. With three detected signals and a
  failing second add, the log holds the first two adds only.
\<close>

theorem session_end_abort:
  "(detect_signals lower isspace T (transcript req) = pre @ s # post
    \<and> (\<forall>i<length pre. \<exists>kvs.
          be (signal_requests lower isspace clk req 0 (take i pre))
             (signal_request lower isspace clk req i (pre ! i)) = Inr (JObj kvs))
    \<and> be (signal_requests lower isspace clk req 0 pre)
          (signal_request lower isspace clk req (length pre) s) = Inl e
    \<longrightarrow> session_end lower isspace T be clk req =
          (signal_requests lower isspace clk req 0 (pre @ [s]), Inl (HTTPException 500 e))
        \<and> length (fst (session_end lower isspace T be clk req)) = length pre + 1)
   \<and> ((\<forall>i<length (detect_signals lower isspace T (transcript req)). \<exists>kvs.
          be (signal_requests lower isspace clk req 0
                (take i (detect_signals lower isspace T (transcript req))))
             (signal_request lower isspace clk req i
                (detect_signals lower isspace T (transcript req) ! i)) = Inr (JObj kvs))
       \<and> length (transcript req) > 100
       \<and> be (signal_requests lower isspace clk req 0
                (detect_signals lower isspace T (transcript req)))
             (transcript_request clk req
                (length (detect_signals lower isspace T (transcript req)))) = Inl e'
    \<longrightarrow> session_end lower isspace T be clk req =
          (spec_end_calls lower isspace T clk req, Inl (HTTPException 500 e')))"
proof (intro conjI impI)
  assume a: "detect_signals lower isspace T (transcript req) = pre @ s # post
    \<and> (\<forall>i<length pre. \<exists>kvs.
          be (signal_requests lower isspace clk req 0 (take i pre))
             (signal_request lower isspace clk req i (pre ! i)) = Inr (JObj kvs))
    \<and> be (signal_requests lower isspace clk req 0 pre)
          (signal_request lower isspace clk req (length pre) s) = Inl e"
  then have "session_end lower isspace T be clk req =
          (signal_requests lower isspace clk req 0 (pre @ [s]), Inl (HTTPException 500 e))"
    using session_end_signal_failure [of lower isspace T req pre s post be clk e] by blast
  then show "session_end lower isspace T be clk req =
          (signal_requests lower isspace clk req 0 (pre @ [s]), Inl (HTTPException 500 e))"
    and "length (fst (session_end lower isspace T be clk req)) = length pre + 1"
    by simp_all
next
  assume "(\<forall>i<length (detect_signals lower isspace T (transcript req)). \<exists>kvs.
          be (signal_requests lower isspace clk req 0
                (take i (detect_signals lower isspace T (transcript req))))
             (signal_request lower isspace clk req i
                (detect_signals lower isspace T (transcript req) ! i)) = Inr (JObj kvs))
       \<and> length (transcript req) > 100
       \<and> be (signal_requests lower isspace clk req 0
                (detect_signals lower isspace T (transcript req)))
             (transcript_request clk req
                (length (detect_signals lower isspace T (transcript req)))) = Inl e'"
  then show "session_end lower isspace T be clk req =
          (spec_end_calls lower isspace T clk req, Inl (HTTPException 500 e'))"
    using session_end_transcript_failure [of lower isspace T req be clk e'] by blast
qed

theorem session_end_abort_witness:
  "detect_signals latin1_lower latin1_isspace [''remember'', ''decided'', ''important'']
     (transcript \<lparr>SessionEnd.user_id = ''u'', SessionEnd.project_id = Some ''p'',
      SessionEnd.transcript = ''I remember we decided this is important''\<rparr>)
     = [''remember''] @ ''decided'' # [''important'']
   \<and> session_end latin1_lower latin1_isspace [''remember'', ''decided'', ''important'']
       (\<lambda>log r. if length log = 1 then Inl (RequestFailed ''503'') else Inr (JObj [(''id'', JStr ''m1'')]))
       (\<lambda>n. ''t'')
       \<lparr>SessionEnd.user_id = ''u'', SessionEnd.project_id = Some ''p'',
      SessionEnd.transcript = ''I remember we decided this is important''\<rparr>
     = ([signal_request latin1_lower latin1_isspace (\<lambda>n. ''t'') \<lparr>SessionEnd.user_id = ''u'', SessionEnd.project_id = Some ''p'',
      SessionEnd.transcript = ''I remember we decided this is important''\<rparr> 0 ''remember'',
         signal_request latin1_lower latin1_isspace (\<lambda>n. ''t'') \<lparr>SessionEnd.user_id = ''u'', SessionEnd.project_id = Some ''p'',
      SessionEnd.transcript = ''I remember we decided this is important''\<rparr> 1 ''decided''],
        Inl (HTTPException 500 (RequestFailed ''503'')))
   \<and> length (fst (session_end latin1_lower latin1_isspace [''remember'', ''decided'', ''important'']
       (\<lambda>log r. if length log = 1 then Inl (RequestFailed ''503'') else Inr (JObj [(''id'', JStr ''m1'')]))
       (\<lambda>n. ''t'')
       \<lparr>SessionEnd.user_id = ''u'', SessionEnd.project_id = Some ''p'',
      SessionEnd.transcript = ''I remember we decided this is important''\<rparr>)) = 2
   \<and> detect_signals latin1_lower latin1_isspace [''remember''] (transcript \<lparr>SessionEnd.user_id = ''u'', SessionEnd.project_id = Some ''p'',
      SessionEnd.transcript = ''We met on Monday. I remember the plan: ship the parser first, then the index, then the sync service, and review in June.''\<rparr>) = [''remember'']
   \<and> session_end latin1_lower latin1_isspace [''remember'']
       (\<lambda>log r. if length log = 1 then Inl (RequestFailed ''503'') else Inr (JObj [(''id'', JStr ''m1'')]))
       (\<lambda>n. ''t'')
       \<lparr>SessionEnd.user_id = ''u'', SessionEnd.project_id = Some ''p'',
      SessionEnd.transcript = ''We met on Monday. I remember the plan: ship the parser first, then the index, then the sync service, and review in June.''\<rparr>
     = (spec_end_calls latin1_lower latin1_isspace [''remember''] (\<lambda>n. ''t'') \<lparr>SessionEnd.user_id = ''u'', SessionEnd.project_id = Some ''p'',
      SessionEnd.transcript = ''We met on Monday. I remember the plan: ship the parser first, then the index, then the sync service, and review in June.''\<rparr>,
        Inl (HTTPException 500 (RequestFailed ''503'')))"
proof -
  let ?D = "\<lparr>SessionEnd.user_id = ''u'', SessionEnd.project_id = Some ''p'',
      SessionEnd.transcript = ''I remember we decided this is important''\<rparr>"
  let ?B = "\<lparr>SessionEnd.user_id = ''u'', SessionEnd.project_id = Some ''p'',
      SessionEnd.transcript = ''We met on Monday. I remember the plan: ship the parser first, then the index, then the sync service, and review in June.''\<rparr>"
  let ?clk = "\<lambda>n :: nat. ''t''"
  let ?be = "\<lambda>(log :: request list) (r :: request).
      if length log = 1 then Inl (RequestFailed ''503'') else Inr (JObj [(''id'', JStr ''m1'')])"
  let ?T = "[''remember'', ''decided'', ''important'']"
  have d: "detect_signals latin1_lower latin1_isspace ?T (transcript ?D)
             = [''remember''] @ ''decided'' # [''important'']"
    by code_simp
  have ok: "\<forall>i<length [''remember'']. \<exists>kvs.
          ?be (signal_requests latin1_lower latin1_isspace ?clk ?D 0 (take i [''remember'']))
             (signal_request latin1_lower latin1_isspace ?clk ?D i ([''remember''] ! i)) = Inr (JObj kvs)"
    by simp
  have b1: "?be [] (signal_request latin1_lower latin1_isspace ?clk ?D 0 ''remember'')
              = Inr (JObj [(''id'', JStr ''m1'')])"
    by simp
  have b2: "?be [signal_request latin1_lower latin1_isspace ?clk ?D 0 ''remember'']
              (signal_request latin1_lower latin1_isspace ?clk ?D 1 ''decided'') = Inl (RequestFailed ''503'')"
    by simp
  have f: "?be (signal_requests latin1_lower latin1_isspace ?clk ?D 0 [''remember''])
              (signal_request latin1_lower latin1_isspace ?clk ?D (length [''remember'']) ''decided'')
            = Inl (RequestFailed ''503'')"
    by simp
  from session_end_abort [of latin1_lower latin1_isspace ?T ?D "[''remember'']" "''decided''"
      "[''important'']" ?be ?clk "RequestFailed ''503''" "RequestFailed ''503''"] d ok f
  have 1: "session_end latin1_lower latin1_isspace ?T ?be ?clk ?D =
          (signal_requests latin1_lower latin1_isspace ?clk ?D 0 ([''remember''] @ [''decided'']),
           Inl (HTTPException 500 (RequestFailed ''503'')))"
    and 2: "length (fst (session_end latin1_lower latin1_isspace ?T ?be ?clk ?D)) = length [''remember''] + 1"
    by blast+
  have db: "detect_signals latin1_lower latin1_isspace [''remember''] (transcript ?B) = [''remember'']"
    by code_simp
  have okb: "\<forall>i<length (detect_signals latin1_lower latin1_isspace [''remember''] (transcript ?B)). \<exists>kvs.
          ?be (signal_requests latin1_lower latin1_isspace ?clk ?B 0
                (take i (detect_signals latin1_lower latin1_isspace [''remember''] (transcript ?B))))
             (signal_request latin1_lower latin1_isspace ?clk ?B i
                (detect_signals latin1_lower latin1_isspace [''remember''] (transcript ?B) ! i))
            = Inr (JObj kvs)"
    unfolding db by simp
  have lb: "length (transcript ?B) > 100" by simp
  have fb: "?be (signal_requests latin1_lower latin1_isspace ?clk ?B 0
                (detect_signals latin1_lower latin1_isspace [''remember''] (transcript ?B)))
             (transcript_request ?clk ?B
                (length (detect_signals latin1_lower latin1_isspace [''remember''] (transcript ?B))))
            = Inl (RequestFailed ''503'')"
    unfolding db by simp
  from session_end_abort [of latin1_lower latin1_isspace "[''remember'']" ?B "[]" "''x''" "[]"
      ?be ?clk "RequestFailed ''503''" "RequestFailed ''503''"] okb lb fb
  have 3: "session_end latin1_lower latin1_isspace [''remember''] ?be ?clk ?B =
          (spec_end_calls latin1_lower latin1_isspace [''remember''] ?clk ?B,
           Inl (HTTPException 500 (RequestFailed ''503'')))"
    by blast
  from 1 have r1: "session_end latin1_lower latin1_isspace ?T ?be ?clk ?D =
     ([signal_request latin1_lower latin1_isspace ?clk ?D 0 ''remember'',
       signal_request latin1_lower latin1_isspace ?clk ?D 1 ''decided''],
      Inl (HTTPException 500 (RequestFailed ''503'')))"
    by simp
  from 2 have r2: "length (fst (session_end latin1_lower latin1_isspace ?T ?be ?clk ?D)) = 2"
    by simp
  from d r1 r2 db 3 show ?thesis by (intro conjI)
qed

section \<open>Session coordinator: the start of a session\<close>

lemma mem0_get_all_eq:
  "mem0_get_all be log uid pid =
     (log @ [Get ''/v1/memories/'' (JObj [(''user_id'', JStr uid)])],
      be log (Get ''/v1/memories/'' (JObj [(''user_id'', JStr uid)])))"
  by (simp add: mem0_get_all_def Let_def)

lemma mem0_search_eq:
  "mem0_search be log q uid pid limit =
     (log @ [Post ''/v1/memories/search/'' (search_params q uid pid limit)],
      be log (Post ''/v1/memories/search/'' (search_params q uid pid limit)))"
  by (simp add: mem0_search_def Let_def)

lemma py_take_len: "py_take k x = Inr y \<Longrightarrow> \<exists>n. py_len y = Inr n \<and> n \<le> k"
  by (cases x) (auto simp: py_take_def py_len_def)

lemma session_start_fst: "fst (session_start be req) = fst (session_start_body be req)"
  by (simp add: session_start_def split: prod.splits sum.splits)

lemma session_start_snd_ok:
  "snd (session_start be req) = Inr r \<longleftrightarrow> snd (session_start_body be req) = Inr r"
  by (auto simp: session_start_def split: prod.splits sum.splits)

lemma start_no_query_calls:
  "\<not> truthy (query req) \<Longrightarrow>
     fst (session_start_body be req) =
       [Get ''/v1/memories/'' (JObj [(''user_id'', JStr (SessionStart.user_id req))])]"
  by (auto simp: session_start_body_def mem0_get_all_eq truthy_def
      split: option.splits sum.splits)

lemma start_no_query_relevant:
  "\<not> truthy (query req) \<Longrightarrow> snd (session_start_body be req) = Inr r \<Longrightarrow> relevant r = JArr []"
  by (auto simp: session_start_body_def mem0_get_all_eq truthy_def
      split: option.splits sum.splits)

lemma start_query_calls:
  "query req = Some q \<Longrightarrow> q \<noteq> [] \<Longrightarrow>
   be [] (Get ''/v1/memories/'' (JObj [(''user_id'', JStr (SessionStart.user_id req))])) = Inr m \<Longrightarrow>
     fst (session_start_body be req) =
       [Get ''/v1/memories/'' (JObj [(''user_id'', JStr (SessionStart.user_id req))]),
        Post ''/v1/memories/search/''
          (search_params q (Some (SessionStart.user_id req)) (SessionStart.project_id req) 5)]"
  by (auto simp: session_start_body_def mem0_get_all_eq mem0_search_eq
      split: option.splits sum.splits)

lemma start_failed_listing_calls:
  "be [] (Get ''/v1/memories/'' (JObj [(''user_id'', JStr (SessionStart.user_id req))])) = Inl e \<Longrightarrow>
     session_start be req =
       ([Get ''/v1/memories/'' (JObj [(''user_id'', JStr (SessionStart.user_id req))])],
        Inl (HTTPException 500 e))"
  by (simp add: session_start_def session_start_body_def mem0_get_all_eq)

lemma start_query_relevant:
  "query req = Some q \<Longrightarrow> q \<noteq> [] \<Longrightarrow> snd (session_start_body be req) = Inr r \<Longrightarrow>
     \<exists>sr. be [Get ''/v1/memories/'' (JObj [(''user_id'', JStr (SessionStart.user_id req))])]
             (Post ''/v1/memories/search/''
                (search_params q (Some (SessionStart.user_id req)) (SessionStart.project_id req) 5))
            = Inr sr
        \<and> py_get sr ''results'' (JArr []) = Inr (relevant r)"
  by (auto simp: session_start_body_def mem0_get_all_eq mem0_search_eq
      split: option.splits sum.splits)

lemma start_recent:
  "snd (session_start_body be req) = Inr r \<Longrightarrow>
     \<exists>m res. be [] (Get ''/v1/memories/'' (JObj [(''user_id'', JStr (SessionStart.user_id req))])) = Inr m
        \<and> py_get m ''results'' (JArr []) = Inr res
        \<and> py_len res = Inr (memories_count r)
        \<and> py_take 10 res = Inr (recent r)"
  by (auto simp: session_start_body_def mem0_get_all_eq mem0_search_eq
      split: option.splits sum.splits if_splits)

lemma search_limit:
  "py_get (search_params q uid pid limit) ''limit'' JNull = Inr (JNum limit)"
  by (simp add: search_params_def py_get_def Let_def map_of_dict_set)

lemmas start_defs =
  session_start_def session_start_body_def mem0_get_all_def mem0_search_def search_params_def
  truthy_def json_of_opt_def py_get_def py_len_def py_take_def

text \<open>
  Claim C5, as the code has it. Without a query (\<^verbatim>\<open>None\<close> or the empty string)
  \<open>session_start\<close> issues exactly one call, the listing, and a returned context has
  \<^verbatim>\<open>relevant = []\<close>. With a non-empty query and a listing that succeeds it issues exactly
  two calls, the listing and then the search with \<^verbatim>\<open>limit = 5\<close>. A returned context has
  at most 10 recent entries, and its relevant entries are the \<^verbatim>\<open>results\<close> of the search
  response as the service sent them: the orchestrator does not cut them.
\<close>

theorem session_start_calls:
  "(\<not> truthy (query req) \<longrightarrow>
       fst (session_start be req) = [Get ''/v1/memories/'' (JObj [(''user_id'', JStr (SessionStart.user_id req))])]
     \<and> (\<forall>r. snd (session_start be req) = Inr r \<longrightarrow> relevant r = JArr []))
   \<and> (\<forall>q m. query req = Some q \<and> q \<noteq> [] \<and> be [] (Get ''/v1/memories/'' (JObj [(''user_id'', JStr (SessionStart.user_id req))])) = Inr m \<longrightarrow>
         fst (session_start be req) =
           [Get ''/v1/memories/'' (JObj [(''user_id'', JStr (SessionStart.user_id req))]),
            Post ''/v1/memories/search/''
              (search_params q (Some (SessionStart.user_id req)) (SessionStart.project_id req) 5)])
   \<and> (\<forall>r. snd (session_start be req) = Inr r \<longrightarrow>
         (\<exists>n. py_len (recent r) = Inr n \<and> n \<le> 10))
   \<and> (\<forall>q r. query req = Some q \<and> q \<noteq> [] \<and> snd (session_start be req) = Inr r \<longrightarrow>
         (\<exists>sr. be [Get ''/v1/memories/'' (JObj [(''user_id'', JStr (SessionStart.user_id req))])]
                 (Post ''/v1/memories/search/''
                    (search_params q (Some (SessionStart.user_id req)) (SessionStart.project_id req) 5))
               = Inr sr
             \<and> py_get sr ''results'' (JArr []) = Inr (relevant r)))
   \<and> py_get (search_params q' (Some (SessionStart.user_id req)) (SessionStart.project_id req) 5)
        ''limit'' JNull = Inr (JNum 5)"
proof (intro conjI allI impI)
  assume "\<not> truthy (query req)"
  then show "fst (session_start be req) = [Get ''/v1/memories/'' (JObj [(''user_id'', JStr (SessionStart.user_id req))])]"
    by (simp add: session_start_fst start_no_query_calls)
next
  fix r assume "\<not> truthy (query req)" "snd (session_start be req) = Inr r"
  then show "relevant r = JArr []"
    by (simp add: session_start_snd_ok start_no_query_relevant)
next
  fix q m assume "query req = Some q \<and> q \<noteq> [] \<and> be [] (Get ''/v1/memories/'' (JObj [(''user_id'', JStr (SessionStart.user_id req))])) = Inr m"
  then show "fst (session_start be req) =
           [Get ''/v1/memories/'' (JObj [(''user_id'', JStr (SessionStart.user_id req))]),
            Post ''/v1/memories/search/''
              (search_params q (Some (SessionStart.user_id req)) (SessionStart.project_id req) 5)]"
    by (simp add: session_start_fst start_query_calls)
next
  fix r assume "snd (session_start be req) = Inr r"
  then have "snd (session_start_body be req) = Inr r" by (simp add: session_start_snd_ok)
  from start_recent [OF this] obtain res where "py_take 10 res = Inr (recent r)" by blast
  then show "\<exists>n. py_len (recent r) = Inr n \<and> n \<le> 10" by (rule py_take_len)
next
  fix q r assume "query req = Some q \<and> q \<noteq> [] \<and> snd (session_start be req) = Inr r"
  then have "query req = Some q" "q \<noteq> []" "snd (session_start_body be req) = Inr r"
    by (simp_all add: session_start_snd_ok)
  then show "\<exists>sr. be [Get ''/v1/memories/'' (JObj [(''user_id'', JStr (SessionStart.user_id req))])]
                 (Post ''/v1/memories/search/''
                    (search_params q (Some (SessionStart.user_id req)) (SessionStart.project_id req) 5))
               = Inr sr
             \<and> py_get sr ''results'' (JArr []) = Inr (relevant r)"
    by (rule start_query_relevant)
next
  show "py_get (search_params q' (Some (SessionStart.user_id req)) (SessionStart.project_id req) 5)
        ''limit'' JNull = Inr (JNum 5)"
    by (rule search_limit)
qed

theorem session_start_calls_witness:
  "\<not> truthy (query \<lparr>SessionStart.user_id = ''u'', SessionStart.project_id = Some ''p'',
                      SessionStart.query = None\<rparr>)
   \<and> session_start (\<lambda>log r. Inr (JObj [(''results'', JArr [JNum 1, JNum 2, JNum 3, JNum 4, JNum 5, JNum 6, JNum 7, JNum 8, JNum 9, JNum 10, JNum 11, JNum 12])]))
        \<lparr>SessionStart.user_id = ''u'', SessionStart.project_id = Some ''p'', SessionStart.query = None\<rparr>
      = ([Get ''/v1/memories/'' (JObj [(''user_id'', JStr ''u'')])],
         Inr \<lparr>start_result.status = ''ok'', start_result.user_id = ''u'',
              start_result.project_id = Some ''p'', start_result.memories_count = 12,
              start_result.recent = JArr [JNum 1, JNum 2, JNum 3, JNum 4, JNum 5, JNum 6, JNum 7, JNum 8, JNum 9, JNum 10], start_result.relevant = JArr []\<rparr>)
   \<and> fst (session_start (\<lambda>log r. Inr (JObj [(''results'', JArr [JNum 1, JNum 2, JNum 3, JNum 4, JNum 5, JNum 6, JNum 7, JNum 8, JNum 9, JNum 10, JNum 11, JNum 12])]))
        \<lparr>SessionStart.user_id = ''u'', SessionStart.project_id = Some ''p'',
         SessionStart.query = Some ''postgres''\<rparr>)
      = [Get ''/v1/memories/'' (JObj [(''user_id'', JStr ''u'')]),
         Post ''/v1/memories/search/''
           (JObj [(''query'', JStr ''postgres''), (''limit'', JNum 5), (''user_id'', JStr ''u''),
                  (''filters'', JObj [(''project_id'', JStr ''p'')])])]
   \<and> (\<exists>n. py_len (JArr [JNum 1, JNum 2, JNum 3, JNum 4, JNum 5, JNum 6, JNum 7, JNum 8, JNum 9, JNum 10]) = Inr n \<and> n \<le> 10)
   \<and> snd (session_start (\<lambda>log r. Inr (JObj [(''results'', JArr [JNum 1, JNum 2, JNum 3, JNum 4, JNum 5, JNum 6, JNum 7, JNum 8, JNum 9, JNum 10, JNum 11, JNum 12])]))
        \<lparr>SessionStart.user_id = ''u'', SessionStart.project_id = Some ''p'',
         SessionStart.query = Some ''postgres''\<rparr>)
      = Inr \<lparr>start_result.status = ''ok'', start_result.user_id = ''u'',
              start_result.project_id = Some ''p'', start_result.memories_count = 12,
              start_result.recent = JArr [JNum 1, JNum 2, JNum 3, JNum 4, JNum 5, JNum 6, JNum 7, JNum 8, JNum 9, JNum 10], start_result.relevant = JArr [JNum 1, JNum 2, JNum 3, JNum 4, JNum 5, JNum 6, JNum 7, JNum 8, JNum 9, JNum 10, JNum 11, JNum 12]\<rparr>
   \<and> (\<exists>sr. py_get sr ''results'' (JArr []) = Inr (JArr [JNum 1, JNum 2, JNum 3, JNum 4, JNum 5, JNum 6, JNum 7, JNum 8, JNum 9, JNum 10, JNum 11, JNum 12]))"
proof -
  let ?be = "\<lambda>(log :: request list) (r :: request). (Inr (JObj [(''results'', JArr [JNum 1, JNum 2, JNum 3, JNum 4, JNum 5, JNum 6, JNum 7, JNum 8, JNum 9, JNum 10, JNum 11, JNum 12])]) :: py_error + json)"
  let ?A = "\<lparr>SessionStart.user_id = ''u'', SessionStart.project_id = Some ''p'', SessionStart.query = None\<rparr>"
  let ?B = "\<lparr>SessionStart.user_id = ''u'', SessionStart.project_id = Some ''p'',
             SessionStart.query = Some ''postgres''\<rparr>"
  have n: "\<not> truthy (query ?A)" by (simp add: truthy_def)
  have s: "snd (session_start ?be ?A) =
         Inr \<lparr>start_result.status = ''ok'', start_result.user_id = ''u'',
              start_result.project_id = Some ''p'', start_result.memories_count = 12,
              start_result.recent = JArr [JNum 1, JNum 2, JNum 3, JNum 4, JNum 5, JNum 6, JNum 7, JNum 8, JNum 9, JNum 10], start_result.relevant = JArr []\<rparr>"
    by (simp add: start_defs)
  have q: "query ?B = Some ''postgres''" "''postgres'' \<noteq> []"
    "?be [] (Get ''/v1/memories/'' (JObj [(''user_id'', JStr (SessionStart.user_id ?B))]))
       = Inr (JObj [(''results'', JArr [JNum 1, JNum 2, JNum 3, JNum 4, JNum 5, JNum 6, JNum 7, JNum 8, JNum 9, JNum 10, JNum 11, JNum 12])])"
    by simp_all
  from session_start_calls [of ?A ?be "[]"] n
  have 1: "fst (session_start ?be ?A) = [Get ''/v1/memories/'' (JObj [(''user_id'', JStr ''u'')])]"
    by simp
  from session_start_calls [of ?B ?be "[]"] q
  have "fst (session_start ?be ?B) =
      [Get ''/v1/memories/'' (JObj [(''user_id'', JStr (SessionStart.user_id ?B))]),
       Post ''/v1/memories/search/''
         (search_params ''postgres'' (Some (SessionStart.user_id ?B)) (SessionStart.project_id ?B) 5)]"
    by blast
  then have 2: "fst (session_start ?be ?B) =
      [Get ''/v1/memories/'' (JObj [(''user_id'', JStr ''u'')]),
       Post ''/v1/memories/search/''
         (JObj [(''query'', JStr ''postgres''), (''limit'', JNum 5), (''user_id'', JStr ''u''),
                (''filters'', JObj [(''project_id'', JStr ''p'')])])]"
    by (simp add: search_params_def truthy_def json_of_opt_def)
  from 1 s have "session_start ?be ?A
      = ([Get ''/v1/memories/'' (JObj [(''user_id'', JStr ''u'')])],
         Inr \<lparr>start_result.status = ''ok'', start_result.user_id = ''u'',
              start_result.project_id = Some ''p'', start_result.memories_count = 12,
              start_result.recent = JArr [JNum 1, JNum 2, JNum 3, JNum 4, JNum 5, JNum 6, JNum 7, JNum 8, JNum 9, JNum 10], start_result.relevant = JArr []\<rparr>)"
    by (simp add: prod_eq_iff)
  moreover from session_start_calls [of ?A ?be "[]"] s
  have "\<exists>n. py_len (recent \<lparr>start_result.status = ''ok'', start_result.user_id = ''u'',
              start_result.project_id = Some ''p'', start_result.memories_count = 12,
              start_result.recent = JArr [JNum 1, JNum 2, JNum 3, JNum 4, JNum 5, JNum 6, JNum 7, JNum 8, JNum 9, JNum 10], start_result.relevant = JArr []\<rparr>) = Inr n \<and> n \<le> 10"
    by blast
  then have "\<exists>n. py_len (JArr [JNum 1, JNum 2, JNum 3, JNum 4, JNum 5, JNum 6, JNum 7, JNum 8, JNum 9, JNum 10]) = Inr n \<and> n \<le> 10" by simp
  moreover have sb: "snd (session_start ?be ?B) =
         Inr \<lparr>start_result.status = ''ok'', start_result.user_id = ''u'',
              start_result.project_id = Some ''p'', start_result.memories_count = 12,
              start_result.recent = JArr [JNum 1, JNum 2, JNum 3, JNum 4, JNum 5, JNum 6, JNum 7, JNum 8, JNum 9, JNum 10], start_result.relevant = JArr [JNum 1, JNum 2, JNum 3, JNum 4, JNum 5, JNum 6, JNum 7, JNum 8, JNum 9, JNum 10, JNum 11, JNum 12]\<rparr>"
    by (simp add: start_defs)
  moreover from session_start_calls [of ?B ?be "[]"] q(1,2) sb
  have "\<exists>sr. ?be [Get ''/v1/memories/'' (JObj [(''user_id'', JStr (SessionStart.user_id ?B))])]
                 (Post ''/v1/memories/search/''
                    (search_params ''postgres'' (Some (SessionStart.user_id ?B)) (SessionStart.project_id ?B) 5))
               = Inr sr
             \<and> py_get sr ''results'' (JArr []) = Inr (relevant \<lparr>start_result.status = ''ok'', start_result.user_id = ''u'',
              start_result.project_id = Some ''p'', start_result.memories_count = 12,
              start_result.recent = JArr [JNum 1, JNum 2, JNum 3, JNum 4, JNum 5, JNum 6, JNum 7, JNum 8, JNum 9, JNum 10], start_result.relevant = JArr [JNum 1, JNum 2, JNum 3, JNum 4, JNum 5, JNum 6, JNum 7, JNum 8, JNum 9, JNum 10, JNum 11, JNum 12]\<rparr>)"
    by blast
  then have "\<exists>sr. py_get sr ''results'' (JArr []) = Inr (JArr [JNum 1, JNum 2, JNum 3, JNum 4, JNum 5, JNum 6, JNum 7, JNum 8, JNum 9, JNum 10, JNum 11, JNum 12])" by auto
  ultimately show ?thesis using n 2 by (intro conjI)
qed

text \<open>
  Claim C5 as stated fails for a service that answers the search with more than five
  results, which are all returned, and for the empty query string, for which no search
  is issued.
\<close>

theorem session_start_relevant_counterexample:
  "session_start (\<lambda>log r. Inr (JObj [(''results'', JArr [JNum 1, JNum 2, JNum 3, JNum 4, JNum 5, JNum 6])]))
        \<lparr>SessionStart.user_id = ''u'', SessionStart.project_id = Some ''p'',
         SessionStart.query = Some ''postgres''\<rparr>
      = ([Get ''/v1/memories/'' (JObj [(''user_id'', JStr ''u'')]),
          Post ''/v1/memories/search/''
            (JObj [(''query'', JStr ''postgres''), (''limit'', JNum 5), (''user_id'', JStr ''u''),
                   (''filters'', JObj [(''project_id'', JStr ''p'')])])],
         Inr \<lparr>start_result.status = ''ok'', start_result.user_id = ''u'',
              start_result.project_id = Some ''p'', start_result.memories_count = 6,
              start_result.recent = JArr [JNum 1, JNum 2, JNum 3, JNum 4, JNum 5, JNum 6], start_result.relevant = JArr [JNum 1, JNum 2, JNum 3, JNum 4, JNum 5, JNum 6]\<rparr>)
   \<and> py_len (JArr [JNum 1, JNum 2, JNum 3, JNum 4, JNum 5, JNum 6]) = Inr 6
   \<and> fst (session_start (\<lambda>log r. Inr (JObj [(''results'', JArr [JNum 1, JNum 2, JNum 3, JNum 4, JNum 5, JNum 6])]))
        \<lparr>SessionStart.user_id = ''u'', SessionStart.project_id = Some ''p'',
         SessionStart.query = Some []\<rparr>)
      = [Get ''/v1/memories/'' (JObj [(''user_id'', JStr ''u'')])]"
  by (simp add: start_defs)

text \<open>
  Claim C8. For every call of \<open>session_start\<close> that returns, the listing succeeded, and
  with \<open>res\<close> the \<^verbatim>\<open>results\<close> of its response (\<^verbatim>\<open>[]\<close> when the key is absent) the returned
  count is the full length of \<open>res\<close> and the recent entries are its first 10, in the
  order of the response.
\<close>

theorem session_start_recent:
  assumes "snd (session_start be req) = Inr r"
  shows "\<exists>m res. be [] (Get ''/v1/memories/'' (JObj [(''user_id'', JStr (SessionStart.user_id req))])) = Inr m
        \<and> py_get m ''results'' (JArr []) = Inr res
        \<and> ((\<exists>xs. res = JArr xs \<and> memories_count r = length xs \<and> recent r = JArr (take 10 xs))
           \<or> (\<exists>cs. res = JStr cs \<and> memories_count r = length cs \<and> recent r = JStr (take 10 cs)))"
proof -
  from assms have "snd (session_start_body be req) = Inr r" by (simp add: session_start_snd_ok)
  from start_recent [OF this] obtain m res where
    m: "be [] (Get ''/v1/memories/'' (JObj [(''user_id'', JStr (SessionStart.user_id req))])) = Inr m" "py_get m ''results'' (JArr []) = Inr res"
    and l: "py_len res = Inr (memories_count r)" and t: "py_take 10 res = Inr (recent r)"
    by blast
  from l t have "(\<exists>xs. res = JArr xs \<and> memories_count r = length xs \<and> recent r = JArr (take 10 xs))
           \<or> (\<exists>cs. res = JStr cs \<and> memories_count r = length cs \<and> recent r = JStr (take 10 cs))"
    by (cases res) (auto simp: py_len_def py_take_def)
  with m show ?thesis by blast
qed

theorem session_start_recent_witness:
  "snd (session_start (\<lambda>log r. Inr (JObj [(''results'', JArr [JNum 1, JNum 2, JNum 3, JNum 4, JNum 5, JNum 6, JNum 7, JNum 8, JNum 9, JNum 10, JNum 11, JNum 12])]))
        \<lparr>SessionStart.user_id = ''u'', SessionStart.project_id = Some ''p'', SessionStart.query = None\<rparr>)
     = Inr \<lparr>start_result.status = ''ok'', start_result.user_id = ''u'',
            start_result.project_id = Some ''p'', start_result.memories_count = 12,
            start_result.recent = JArr [JNum 1, JNum 2, JNum 3, JNum 4, JNum 5, JNum 6, JNum 7, JNum 8, JNum 9, JNum 10], start_result.relevant = JArr []\<rparr>
   \<and> (\<exists>xs. py_get (JObj [(''results'', JArr [JNum 1, JNum 2, JNum 3, JNum 4, JNum 5, JNum 6, JNum 7, JNum 8, JNum 9, JNum 10, JNum 11, JNum 12])]) ''results'' (JArr []) = Inr (JArr xs)
         \<and> length xs = 12 \<and> take 10 xs = [JNum 1, JNum 2, JNum 3, JNum 4, JNum 5, JNum 6, JNum 7, JNum 8, JNum 9, JNum 10])"
proof -
  let ?be = "\<lambda>(log :: request list) (r :: request). (Inr (JObj [(''results'', JArr [JNum 1, JNum 2, JNum 3, JNum 4, JNum 5, JNum 6, JNum 7, JNum 8, JNum 9, JNum 10, JNum 11, JNum 12])]) :: py_error + json)"
  let ?A = "\<lparr>SessionStart.user_id = ''u'', SessionStart.project_id = Some ''p'', SessionStart.query = None\<rparr>"
  let ?r = "\<lparr>start_result.status = ''ok'', start_result.user_id = ''u'',
            start_result.project_id = Some ''p'', start_result.memories_count = 12,
            start_result.recent = JArr [JNum 1, JNum 2, JNum 3, JNum 4, JNum 5, JNum 6, JNum 7, JNum 8, JNum 9, JNum 10], start_result.relevant = JArr []\<rparr>"
  have s: "snd (session_start ?be ?A) = Inr ?r" by (simp add: start_defs)
  from session_start_recent [OF s] obtain m res where
    m: "?be [] (Get ''/v1/memories/'' (JObj [(''user_id'', JStr (SessionStart.user_id ?A))])) = Inr m"
       "py_get m ''results'' (JArr []) = Inr res"
    and d: "(\<exists>xs. res = JArr xs \<and> memories_count ?r = length xs \<and> recent ?r = JArr (take 10 xs))
           \<or> (\<exists>cs. res = JStr cs \<and> memories_count ?r = length cs \<and> recent ?r = JStr (take 10 cs))"
    by (elim exE conjE) (rule that)
  from m(1) have m': "m = JObj [(''results'', JArr [JNum 1, JNum 2, JNum 3, JNum 4, JNum 5, JNum 6, JNum 7, JNum 8, JNum 9, JNum 10, JNum 11, JNum 12])]" by simp
  from d obtain xs where "res = JArr xs" "length xs = 12" "take 10 xs = [JNum 1, JNum 2, JNum 3, JNum 4, JNum 5, JNum 6, JNum 7, JNum 8, JNum 9, JNum 10]"
    by auto
  with m(2) m' s show ?thesis by auto
qed

text \<open>
  Claim C10. The listing ignores its project argument: two listings for the same user and
  different projects issue the same request and get the same answer, so two session
  starts that differ only in the project and both return have the same recent entries and
  the same count.
\<close>

theorem listing_ignores_project:
  "mem0_get_all be log uid p1 = mem0_get_all be log uid p2
   \<and> (\<forall>r1 r2.
        snd (session_start be \<lparr>SessionStart.user_id = uid, SessionStart.project_id = p1,
                               SessionStart.query = q\<rparr>) = Inr r1 \<and>
        snd (session_start be \<lparr>SessionStart.user_id = uid, SessionStart.project_id = p2,
                               SessionStart.query = q\<rparr>) = Inr r2 \<longrightarrow>
        recent r1 = recent r2 \<and> memories_count r1 = memories_count r2)"
proof (intro conjI allI impI)
  show "mem0_get_all be log uid p1 = mem0_get_all be log uid p2"
    by (simp add: mem0_get_all_eq)
next
  fix r1 r2
  assume a: "snd (session_start be \<lparr>SessionStart.user_id = uid, SessionStart.project_id = p1,
                               SessionStart.query = q\<rparr>) = Inr r1 \<and>
        snd (session_start be \<lparr>SessionStart.user_id = uid, SessionStart.project_id = p2,
                               SessionStart.query = q\<rparr>) = Inr r2"
  from a have "snd (session_start_body be \<lparr>SessionStart.user_id = uid, SessionStart.project_id = p1,
                               SessionStart.query = q\<rparr>) = Inr r1"
    by (simp add: session_start_snd_ok)
  from start_recent [OF this] obtain m1 res1 where
    1: "be [] (Get ''/v1/memories/'' (JObj [(''user_id'', JStr uid)])) = Inr m1"
       "py_get m1 ''results'' (JArr []) = Inr res1"
       "py_len res1 = Inr (memories_count r1)" "py_take 10 res1 = Inr (recent r1)"
    by auto
  from a have "snd (session_start_body be \<lparr>SessionStart.user_id = uid, SessionStart.project_id = p2,
                               SessionStart.query = q\<rparr>) = Inr r2"
    by (simp add: session_start_snd_ok)
  from start_recent [OF this] obtain m2 res2 where
    2: "be [] (Get ''/v1/memories/'' (JObj [(''user_id'', JStr uid)])) = Inr m2"
       "py_get m2 ''results'' (JArr []) = Inr res2"
       "py_len res2 = Inr (memories_count r2)" "py_take 10 res2 = Inr (recent r2)"
    by auto
  from 1 2 have "m1 = m2" by simp
  with 1 2 have "res1 = res2" by simp
  with 1 2 show "recent r1 = recent r2" and "memories_count r1 = memories_count r2" by simp_all
qed

theorem listing_ignores_project_witness:
  "mem0_get_all (\<lambda>log r. Inr (JObj [(''results'', JArr [JNum 1, JNum 2, JNum 3, JNum 4, JNum 5, JNum 6])])) [] ''u'' (Some ''alpha'')
     = mem0_get_all (\<lambda>log r. Inr (JObj [(''results'', JArr [JNum 1, JNum 2, JNum 3, JNum 4, JNum 5, JNum 6])])) [] ''u'' (Some ''beta'')
   \<and> fst (mem0_get_all (\<lambda>log r. Inr (JObj [(''results'', JArr [JNum 1, JNum 2, JNum 3, JNum 4, JNum 5, JNum 6])])) [] ''u'' (Some ''alpha''))
     = [Get ''/v1/memories/'' (JObj [(''user_id'', JStr ''u'')])]
   \<and> snd (session_start (\<lambda>log r. Inr (JObj [(''results'', JArr [JNum 1, JNum 2, JNum 3, JNum 4, JNum 5, JNum 6])]))
        \<lparr>SessionStart.user_id = ''u'', SessionStart.project_id = Some ''alpha'',
         SessionStart.query = None\<rparr>)
     = Inr \<lparr>start_result.status = ''ok'', start_result.user_id = ''u'',
            start_result.project_id = Some ''alpha'', start_result.memories_count = 6,
            start_result.recent = JArr [JNum 1, JNum 2, JNum 3, JNum 4, JNum 5, JNum 6], start_result.relevant = JArr []\<rparr>
   \<and> snd (session_start (\<lambda>log r. Inr (JObj [(''results'', JArr [JNum 1, JNum 2, JNum 3, JNum 4, JNum 5, JNum 6])]))
        \<lparr>SessionStart.user_id = ''u'', SessionStart.project_id = Some ''beta'',
         SessionStart.query = None\<rparr>)
     = Inr \<lparr>start_result.status = ''ok'', start_result.user_id = ''u'',
            start_result.project_id = Some ''beta'', start_result.memories_count = 6,
            start_result.recent = JArr [JNum 1, JNum 2, JNum 3, JNum 4, JNum 5, JNum 6], start_result.relevant = JArr []\<rparr>
   \<and> recent \<lparr>start_result.status = ''ok'', start_result.user_id = ''u'',
            start_result.project_id = Some ''alpha'', start_result.memories_count = 6,
            start_result.recent = JArr [JNum 1, JNum 2, JNum 3, JNum 4, JNum 5, JNum 6], start_result.relevant = JArr []\<rparr>
     = recent \<lparr>start_result.status = ''ok'', start_result.user_id = ''u'',
            start_result.project_id = Some ''beta'', start_result.memories_count = 6,
            start_result.recent = JArr [JNum 1, JNum 2, JNum 3, JNum 4, JNum 5, JNum 6], start_result.relevant = JArr []\<rparr>"
proof -
  let ?be = "\<lambda>(log :: request list) (r :: request). (Inr (JObj [(''results'', JArr [JNum 1, JNum 2, JNum 3, JNum 4, JNum 5, JNum 6])]) :: py_error + json)"
  let ?ra = "\<lparr>start_result.status = ''ok'', start_result.user_id = ''u'',
            start_result.project_id = Some ''alpha'', start_result.memories_count = 6,
            start_result.recent = JArr [JNum 1, JNum 2, JNum 3, JNum 4, JNum 5, JNum 6], start_result.relevant = JArr []\<rparr>"
  let ?rb = "\<lparr>start_result.status = ''ok'', start_result.user_id = ''u'',
            start_result.project_id = Some ''beta'', start_result.memories_count = 6,
            start_result.recent = JArr [JNum 1, JNum 2, JNum 3, JNum 4, JNum 5, JNum 6], start_result.relevant = JArr []\<rparr>"
  note T = listing_ignores_project [of ?be "[]" "''u''" "Some ''alpha''" "Some ''beta''" None]
  have a: "snd (session_start ?be \<lparr>SessionStart.user_id = ''u'',
             SessionStart.project_id = Some ''alpha'', SessionStart.query = None\<rparr>) = Inr ?ra"
    by (simp add: start_defs)
  have b: "snd (session_start ?be \<lparr>SessionStart.user_id = ''u'',
             SessionStart.project_id = Some ''beta'', SessionStart.query = None\<rparr>) = Inr ?rb"
    by (simp add: start_defs)
  from T have 1: "mem0_get_all ?be [] ''u'' (Some ''alpha'') = mem0_get_all ?be [] ''u'' (Some ''beta'')"
    by (rule conjunct1)
  have 2: "fst (mem0_get_all ?be [] ''u'' (Some ''alpha''))
     = [Get ''/v1/memories/'' (JObj [(''user_id'', JStr ''u'')])]"
    by (simp add: mem0_get_all_def)
  from T a b have 3: "recent ?ra = recent ?rb" by blast
  from 1 2 a b 3 show ?thesis by (intro conjI)
qed

end
